theory Spec2Isabelle
  imports Main "HOL-Library.Sublist"
begin

section \<open>Data model of module/yuzu.py\<close>

text \<open>
  A path is the tuple of its parts, as \<^verbatim>\<open>pathlib\<close> keeps it; \<^verbatim>\<open>p.joinpath(q)\<close> for a
  relative literal \<^verbatim>\<open>q\<close> appends the parts of \<^verbatim>\<open>q\<close>. How a string is split into parts
  (\<^verbatim>\<open>Path(s)\<close>), \<^verbatim>\<open>absolute()\<close>, \<^verbatim>\<open>str()\<close> and \<^verbatim>\<open>==\<close> on paths depend on the platform and
  on the working directory, so they are inputs (fields of \<open>env\<close>). The file system is the
  set of paths that exist; a file is identified with the parts of the path naming it.
\<close>

type_synonym path = "string list"

definition joinpath :: "path \<Rightarrow> string list \<Rightarrow> path" where
  "joinpath p parts = p @ parts"

datatype error =
    IgnoredException string
  | VersionNotFoundException string string string
  | FailToCopyFiles error
  | Raised string

text \<open>\<^verbatim>\<open>config.yuzu\<close>: the class is declared in the config module; its fields are those
  the module reads and writes.\<close>

record YuzuConfig =
  yuzu_path :: string
  yuzu_version :: "string option"
  yuzu_firmware :: "string option"
  branch :: "string option"

record asset =
  name :: string
  download_url :: string

record release_info =
  tag_name :: "string option"
  assets :: "asset list"

text \<open>A section of the INI file: the names of its options (those of the default section
  included) as \<^verbatim>\<open>configparser\<close> stores them, each with its raw value.\<close>

type_synonym ini_section = "(string \<times> string) list"

text \<open>
  The state the module reads and mutates: \<^verbatim>\<open>config.yuzu\<close>, the two settings it consults,
  the configuration last written by \<^verbatim>\<open>dump_config()\<close>, \<^verbatim>\<open>storage.yuzu_history\<close> and the
  file system.
\<close>

record world =
  yuzu :: YuzuConfig
  rename_yuzu_to_cemu :: bool
  autoDeleteAfterInstall :: bool
  dumped :: "YuzuConfig option"
  yuzu_history :: "string \<rightharpoonup> YuzuConfig"
  files :: "path set"

text \<open>
  The collaborators the module imports and the platform it runs on. Each field has the
  name of the function it stands for. A collaborator that can raise returns
  \<open>error + result\<close>; one that changes the file system takes it and returns it.
  \<open>get_all_window_name e k\<close> is what the \<open>k\<close>-th enumeration of the poll loop yields.
  \<open>ConfigParser_read\<close> yields the sections of the file it parses; \<open>before_get e ds raw\<close> is
  the interpolation \<^verbatim>\<open>configparser\<close> applies when the raw value \<open>raw\<close> of an option of the
  section \<open>ds\<close> is read (\<^verbatim>\<open>%%\<close> becomes \<^verbatim>\<open>%\<close>, a reference \<^verbatim>\<open>%(name)s\<close> is expanded, any other
  \<^verbatim>\<open>%\<close> raises). \<open>mkdir_error e p fs\<close> is the \<^verbatim>\<open>OSError\<close> with which the operating system
  refuses to create the directory \<open>p\<close>, if it does (an ancestor that is a regular file, a
  missing drive, a missing permission).
  Notifications, logging and sleeping have no effect on the state and are left out; the
  argument of a log call is still evaluated where that can raise.
\<close>

record env =
  Path :: "string \<Rightarrow> path"
  absolute :: "path \<Rightarrow> path"
  str_of :: "path \<Rightarrow> string"
  path_eq :: "path \<Rightarrow> path \<Rightarrow> bool"
  gettempdir :: string
  appdata :: "string option"
  YuzuConfig_default :: YuzuConfig
  get_yuzu_release_info_by_version :: "string \<Rightarrow> string \<Rightarrow> error + release_info"
  get_github_download_url :: "string \<Rightarrow> string"
  download :: "string \<Rightarrow> path set \<Rightarrow> error + (path list \<times> path set)"
  uncompress :: "path \<Rightarrow> path \<Rightarrow> path set \<Rightarrow> error + path set"
  glob :: "path \<Rightarrow> string \<Rightarrow> path set \<Rightarrow> path list"
  copytree :: "path \<Rightarrow> path \<Rightarrow> path set \<Rightarrow> error + path set"
  rmtree :: "path \<Rightarrow> path set \<Rightarrow> error + path set"
  check_and_install_msvc :: "path set \<Rightarrow> error + path set"
  install_firmware :: "string option \<Rightarrow> path \<Rightarrow> path set \<Rightarrow> error + (string option \<times> path set)"
  find_all_instances :: "string \<Rightarrow> nat list"
  Popen :: "path \<Rightarrow> error option"
  get_all_window_name :: "nat \<Rightarrow> error + string list"
  ConfigParser_read :: "path \<Rightarrow> error + (string \<rightharpoonup> ini_section)"
  before_get :: "ini_section \<Rightarrow> string \<Rightarrow> error + string"
  unescape :: "string \<Rightarrow> error + string"
  mkdir_error :: "path \<Rightarrow> path set \<Rightarrow> error option"
  add_yuzu_history :: "YuzuConfig \<Rightarrow> (string \<rightharpoonup> YuzuConfig) \<Rightarrow> (string \<rightharpoonup> YuzuConfig)"

subsection \<open>Python primitives\<close>

text \<open>Truth value of an optional string: \<^verbatim>\<open>None\<close> and \<^verbatim>\<open>''\<close> are false.\<close>

fun truthy :: "string option \<Rightarrow> bool" where
  "truthy None = False"
| "truthy (Some s) = (s \<noteq> [])"

definition startswith :: "string \<Rightarrow> string \<Rightarrow> bool" where
  "startswith s p = prefix p s"

definition endswith :: "string \<Rightarrow> string \<Rightarrow> bool" where
  "endswith s p = prefix (rev p) (rev s)"

text \<open>\<^verbatim>\<open>sub in s\<close> on strings.\<close>

fun contains :: "string \<Rightarrow> string \<Rightarrow> bool" where
  "contains sub [] = (sub = [])"
| "contains sub (c # cs) = (prefix sub (c # cs) \<or> contains sub cs)"

definition exists :: "path \<Rightarrow> world \<Rightarrow> bool" where
  "exists p w = (p \<in> files w)"

text \<open>\<^verbatim>\<open>p.mkdir(parents=True, exist_ok=True)\<close>: raises when the operating system refuses;
  otherwise the directory and its ancestors exist afterwards.\<close>

definition mkdir_parents :: "env \<Rightarrow> path \<Rightarrow> path set \<Rightarrow> error + path set" where
  "mkdir_parents e p fs =
     (case mkdir_error e p fs of
        Some x \<Rightarrow> Inl x
      | None \<Rightarrow> Inr (fs \<union> set (prefixes p)))"

text \<open>\<^verbatim>\<open>os.remove(p)\<close> raises when the file is not there.\<close>

definition os_remove :: "path \<Rightarrow> path set \<Rightarrow> error + path set" where
  "os_remove p fs = (if p \<in> fs then Inr (fs - {p}) else Inl (Raised ''FileNotFoundError''))"

text \<open>\<^verbatim>\<open>os.replace(src, dst)\<close>, called only on an existing \<^verbatim>\<open>src\<close>.\<close>

definition os_replace :: "path \<Rightarrow> path \<Rightarrow> path set \<Rightarrow> path set" where
  "os_replace src dst fs = insert dst (fs - {src})"

definition dump_config :: "world \<Rightarrow> world" where
  "dump_config w = w\<lparr>dumped := Some (yuzu w)\<rparr>"

section \<open>Path resolver\<close>

definition detect_exe_list :: "string list" where
  "detect_exe_list = [''yuzu.exe'', ''eden.exe'', ''suzu.exe'', ''cemu.exe'']"

text \<open>The \<^verbatim>\<open>for exe_name in detect_exe_list\<close> loop of \<^verbatim>\<open>get_yuzu_exe_path\<close>; \<open>None\<close> when it
  falls through.\<close>

fun exe_loop :: "path \<Rightarrow> world \<Rightarrow> string list \<Rightarrow> path option" where
  "exe_loop yz_path w [] = None"
| "exe_loop yz_path w (exe_name # rest) =
     (if exists (joinpath yz_path [exe_name]) w then Some (joinpath yz_path [exe_name])
      else exe_loop yz_path w rest)"

definition get_yuzu_exe_path :: "env \<Rightarrow> world \<Rightarrow> path" where
  "get_yuzu_exe_path e w =
     (let yz_path = Path e (yuzu_path (yuzu w)) in
      if (rename_yuzu_to_cemu w \<or> \<not> exists (joinpath yz_path [''yuzu.exe'']) w)
         \<and> exists (joinpath yz_path [''cemu.exe'']) w
      then joinpath yz_path [''cemu.exe'']
      else (case exe_loop yz_path w detect_exe_list of
              Some p \<Rightarrow> p
            | None \<Rightarrow> joinpath yz_path [''yuzu.exe'']))"

text \<open>\<^verbatim>\<open>get_yuzu_user_path\<close>; \<^verbatim>\<open>os.environ['appdata']\<close> raises \<^verbatim>\<open>KeyError\<close> when the variable is
  not set, and is read only when the in-tree \<^verbatim>\<open>user\<close> folder does not exist.\<close>

definition get_yuzu_user_path :: "env \<Rightarrow> world \<Rightarrow> error + path" where
  "get_yuzu_user_path e w =
     (let yuzu_dir = Path e (yuzu_path (yuzu w)) in
      if exists (joinpath yuzu_dir [''user'']) w then Inr (joinpath yuzu_dir [''user''])
      else (case appdata e of
              None \<Rightarrow> Inl (Raised ''KeyError'')
            | Some ad \<Rightarrow>
                if exists (joinpath (Path e ad) [''yuzu'']) w
                then Inr (joinpath (Path e ad) [''yuzu''])
                else if exists (joinpath (Path e ad) [''eden'']) w
                then Inr (joinpath (Path e ad) [''eden''])
                else Inr (joinpath yuzu_dir [''user''])))"

text \<open>\<^verbatim>\<open>dict(data_storage)\<close>, built for the debug log line before the section is returned: it
  reads every option of the section in order, with interpolation, and the first option that
  does not interpolate raises.\<close>

fun dict_items :: "env \<Rightarrow> ini_section \<Rightarrow> ini_section \<Rightarrow> error + ini_section" where
  "dict_items e data_storage [] = Inr []"
| "dict_items e data_storage ((k, raw) # rest) =
     (case before_get e data_storage raw of
        Inl x \<Rightarrow> Inl x
      | Inr v \<Rightarrow>
          (case dict_items e data_storage rest of
             Inl x \<Rightarrow> Inl x
           | Inr d \<Rightarrow> Inr ((k, v) # d)))"

text \<open>\<^verbatim>\<open>_get_yuzu_data_storage_config\<close>: \<open>None\<close> when the Qt config file does not exist;
  reading the file can raise, and so do the lookup of a section that is not there and the
  \<^verbatim>\<open>dict(data_storage)\<close> of the log line.\<close>

definition get_yuzu_data_storage_config :: "env \<Rightarrow> path \<Rightarrow> world \<Rightarrow> error + ini_section option" where
  "get_yuzu_data_storage_config e user_path w =
     (let config_path = joinpath user_path [''config'', ''qt-config.ini''] in
      if exists config_path w then
        (case ConfigParser_read e (absolute e config_path) of
           Inl x \<Rightarrow> Inl x
         | Inr sections \<Rightarrow>
             (case sections ''Data%20Storage'' of
                None \<Rightarrow> Inl (Raised ''KeyError'')
              | Some data_storage \<Rightarrow>
                  (case dict_items e data_storage data_storage of
                     Inl x \<Rightarrow> Inl x
                   | Inr d \<Rightarrow> Inr (Some data_storage))))
      else Inr None)"

text \<open>\<^verbatim>\<open>if data_storage:\<close> is false for \<^verbatim>\<open>None\<close> and for a section without options.\<close>

fun section_truthy :: "ini_section option \<Rightarrow> bool" where
  "section_truthy None = False"
| "section_truthy (Some ds) = (ds \<noteq> [])"

text \<open>\<^verbatim>\<open>data_storage.get(key)\<close>: \<^verbatim>\<open>None\<close> when the option is absent, otherwise the
  interpolated value of the option, or the exception of the interpolation.\<close>

fun section_get :: "env \<Rightarrow> ini_section option \<Rightarrow> string \<Rightarrow> error + string option" where
  "section_get e None k = Inr None"
| "section_get e (Some ds) k =
     (case map_of ds k of
        None \<Rightarrow> Inr None
      | Some raw \<Rightarrow>
          (case before_get e ds raw of
             Inl x \<Rightarrow> Inl x
           | Inr v \<Rightarrow> Inr (Some v)))"

text \<open>
  Modelled from the spec: \<^verbatim>\<open>decode_yuzu_path\<close> of \<^verbatim>\<open>utils.common\<close> is not part of this file.
  The spec has it decode a config value that may contain escaped-unicode sequences, and has
  the default path returned when the key is absent from the section. So it is a function of
  the string value: what it yields on a string is left to the environment (\<open>unescape\<close>),
  and applied to the missing value \<^verbatim>\<open>None\<close> it raises.
\<close>

fun decode_yuzu_path :: "env \<Rightarrow> string option \<Rightarrow> error + string" where
  "decode_yuzu_path e None = Inl (Raised ''TypeError'')"
| "decode_yuzu_path e (Some s) = unescape e s"

text \<open>\<^verbatim>\<open>get_yuzu_nand_path\<close>: the user path is resolved outside the \<^verbatim>\<open>try\<close>; every exception
  inside it is logged and the default stands.\<close>

definition get_yuzu_nand_path :: "env \<Rightarrow> world \<Rightarrow> error + path" where
  "get_yuzu_nand_path e w =
     (case get_yuzu_user_path e w of
        Inl x \<Rightarrow> Inl x
      | Inr user_path \<Rightarrow>
          (let nand_path = joinpath user_path [''nand''] in
           Inr (case get_yuzu_data_storage_config e user_path w of
                  Inl x \<Rightarrow> nand_path
                | Inr data_storage \<Rightarrow>
                    if section_truthy data_storage then
                      (case section_get e data_storage ''nand_directory'' of
                         Inl x \<Rightarrow> nand_path
                       | Inr path_str \<Rightarrow>
                           (case decode_yuzu_path e path_str of
                              Inl x \<Rightarrow> nand_path
                            | Inr d \<Rightarrow> Path e d))
                    else nand_path)))"

text \<open>The marker \<^verbatim>\<open>'\\u'\<close>: a backslash and the letter u.\<close>

definition unicode_marker :: string where
  "unicode_marker = [CHR 0x5C, CHR ''u'']"

text \<open>\<^verbatim>\<open>get_yuzu_load_path\<close>; \<^verbatim>\<open>'\\u' in path_str\<close> raises \<^verbatim>\<open>TypeError\<close> on \<^verbatim>\<open>None\<close>.\<close>

definition get_yuzu_load_path :: "env \<Rightarrow> world \<Rightarrow> error + path" where
  "get_yuzu_load_path e w =
     (case get_yuzu_user_path e w of
        Inl x \<Rightarrow> Inl x
      | Inr user_path \<Rightarrow>
          (let load_path = joinpath user_path [''load''] in
           Inr (case get_yuzu_data_storage_config e user_path w of
                  Inl x \<Rightarrow> load_path
                | Inr data_storage \<Rightarrow>
                    if section_truthy data_storage then
                      (case section_get e data_storage ''load_directory'' of
                         Inl x \<Rightarrow> load_path
                       | Inr None \<Rightarrow> load_path
                       | Inr (Some path_str) \<Rightarrow>
                           if contains unicode_marker path_str then
                             (case decode_yuzu_path e (Some path_str) of
                                Inl x \<Rightarrow> load_path
                              | Inr d \<Rightarrow> Path e d)
                           else Path e path_str)
                    else load_path)))"

text \<open>\<^verbatim>\<open>update_yuzu_path\<close>. The \<^verbatim>\<open>mkdir\<close> is not inside a \<^verbatim>\<open>try\<close>: when it raises, the function
  is left before the comparison. The object fetched from the history is the one whose
  \<^verbatim>\<open>yuzu_path\<close> is assigned, so the history entry changes with it.\<close>

definition update_yuzu_path :: "env \<Rightarrow> string \<Rightarrow> world \<Rightarrow> error + world" where
  "update_yuzu_path e new_yuzu_path w =
     (let new_path = Path e new_yuzu_path in
      case (if \<not> exists new_path w then mkdir_parents e new_path (files w)
            else Inr (files w)) of
        Inl x \<Rightarrow> Inl x
      | Inr fs \<Rightarrow>
          (let w1 = w\<lparr>files := fs\<rparr> in
           if path_eq e (absolute e new_path) (absolute e (Path e (yuzu_path (yuzu w1))))
           then Inr w1
           else
             (let w2 = w1\<lparr>yuzu_history := add_yuzu_history e (yuzu w1) (yuzu_history w1)\<rparr>;
                  key = str_of e (absolute e new_path);
                  w3 = (case yuzu_history w2 key of
                          Some c \<Rightarrow>
                            w2\<lparr>yuzu := c\<lparr>yuzu_path := key\<rparr>,
                               yuzu_history := (yuzu_history w2)(key \<mapsto> c\<lparr>yuzu_path := key\<rparr>)\<rparr>
                        | None \<Rightarrow> w2\<lparr>yuzu := (YuzuConfig_default e)\<lparr>yuzu_path := key\<rparr>\<rparr>);
                  w4 = (if yuzu_history w3 (yuzu_path (yuzu w3)) = None
                        then w3\<lparr>yuzu_history := add_yuzu_history e (yuzu w3) (yuzu_history w3)\<rparr>
                        else w3)
              in Inr (dump_config w4))))"

section \<open>Release resolver\<close>

definition unsupported_branch :: error where
  "unsupported_branch = IgnoredException ''Only support install yuzu on branch [eden]''"

definition no_download_url :: error where
  "no_download_url = IgnoredException ''Fail to fetch yuzu download url.''"

text \<open>The \<^verbatim>\<open>for asset in assets\<close> loop of \<^verbatim>\<open>download_yuzu\<close>: the value of \<^verbatim>\<open>url\<close> after it.\<close>

fun asset_loop :: "env \<Rightarrow> asset list \<Rightarrow> string option" where
  "asset_loop e [] = None"
| "asset_loop e (a # rest) =
     (if endswith (name a) ''.7z''
      then Some (get_github_download_url e (download_url a))
      else if startswith (name a) ''Windows-Yuzu-EA-'' \<and> endswith (name a) ''.zip''
      then Some (get_github_download_url e (download_url a))
      else if startswith (name a) ''Eden-Windows-'' \<and> endswith (name a) ''.zip''
      then Some (get_github_download_url e (download_url a))
      else asset_loop e rest)"

text \<open>The three naming patterns the loop tests, as one predicate on an asset.\<close>

definition asset_matches :: "asset \<Rightarrow> bool" where
  "asset_matches a =
     (endswith (name a) ''.7z''
      \<or> (startswith (name a) ''Windows-Yuzu-EA-'' \<and> endswith (name a) ''.zip'')
      \<or> (startswith (name a) ''Eden-Windows-'' \<and> endswith (name a) ''.zip''))"

text \<open>\<^verbatim>\<open>download_yuzu\<close>: returns the path of the first downloaded file;
  \<^verbatim>\<open>info.files[0]\<close> raises \<^verbatim>\<open>IndexError\<close> on an empty list.\<close>

definition download_yuzu :: "env \<Rightarrow> string \<Rightarrow> string \<Rightarrow> world \<Rightarrow> error + (path \<times> world)" where
  "download_yuzu e target_version br w =
     (if br \<noteq> ''eden'' then Inl unsupported_branch
      else (case get_yuzu_release_info_by_version e target_version br of
              Inl x \<Rightarrow> Inl x
            | Inr release \<Rightarrow>
                if \<not> truthy (tag_name release)
                then Inl (VersionNotFoundException target_version br ''yuzu'')
                else (case asset_loop e (assets release) of
                        None \<Rightarrow> Inl no_download_url
                      | Some url \<Rightarrow>
                          if url = [] then Inl no_download_url
                          else (case download e url (files w) of
                                  Inl x \<Rightarrow> Inl x
                                | Inr (fl, fs) \<Rightarrow>
                                    (case fl of
                                       [] \<Rightarrow> Inl (Raised ''IndexError'')
                                     | file # _ \<Rightarrow> Inr (file, w\<lparr>files := fs\<rparr>))))))"

section \<open>Installer\<close>

definition unzip_yuzu :: "env \<Rightarrow> path \<Rightarrow> path option \<Rightarrow> world \<Rightarrow> error + (path \<times> world)" where
  "unzip_yuzu e package_path target_dir w =
     (let td = (case target_dir of None \<Rightarrow> Path e (gettempdir e) | Some d \<Rightarrow> d) in
      case uncompress e package_path td (files w) of
        Inl x \<Rightarrow> Inl x
      | Inr fs \<Rightarrow> Inr (td, w\<lparr>files := fs\<rparr>))"

text \<open>The loop that removes the source tarballs found by the glob.\<close>

fun remove_loop :: "path list \<Rightarrow> path set \<Rightarrow> error + path set" where
  "remove_loop [] fs = Inr fs"
| "remove_loop (useless_file # rest) fs =
     (case os_remove useless_file fs of
        Inl x \<Rightarrow> Inl x
      | Inr fs' \<Rightarrow> remove_loop rest fs')"

text \<open>\<^verbatim>\<open>copy_back_yuzu_files\<close>: an exception of \<^verbatim>\<open>copytree\<close> is wrapped in \<^verbatim>\<open>FailToCopyFiles\<close>
  (whose second argument is a constant message) and the temporary directory stays.\<close>

definition copy_back_yuzu_files :: "env \<Rightarrow> path \<Rightarrow> path \<Rightarrow> world \<Rightarrow> error + world" where
  "copy_back_yuzu_files e tmp_dir yuzu_dir w =
     (case remove_loop (glob e tmp_dir ''yuzu-windows-msvc-source-*.tar.xz'' (files w)) (files w) of
        Inl x \<Rightarrow> Inl x
      | Inr fs1 \<Rightarrow>
          (case copytree e tmp_dir yuzu_dir fs1 of
             Inl x \<Rightarrow> Inl (FailToCopyFiles x)
           | Inr fs2 \<Rightarrow>
               (case rmtree e tmp_dir fs2 of
                  Inl x \<Rightarrow> Inl x
                | Inr fs3 \<Rightarrow> Inr (w\<lparr>files := fs3\<rparr>))))"

definition install_eden :: "env \<Rightarrow> string \<Rightarrow> world \<Rightarrow> error + world" where
  "install_eden e target_version w =
     (let yuzu_dir = Path e (yuzu_path (yuzu w)) in
      case download_yuzu e target_version ''eden'' w of
        Inl x \<Rightarrow> Inl x
      | Inr (yuzu_package_path, w1) \<Rightarrow>
          (let tmp_dir = joinpath (Path e (gettempdir e)) [''eden-install''] in
           case unzip_yuzu e yuzu_package_path (Some tmp_dir) w1 of
             Inl x \<Rightarrow> Inl x
           | Inr (_, w2) \<Rightarrow>
               (case copy_back_yuzu_files e tmp_dir yuzu_dir w2 of
                  Inl x \<Rightarrow> Inl x
                | Inr w3 \<Rightarrow>
                    if autoDeleteAfterInstall w3 then
                      (case os_remove yuzu_package_path (files w3) of
                         Inl x \<Rightarrow> Inl x
                       | Inr fs \<Rightarrow> Inr (w3\<lparr>files := fs\<rparr>))
                    else Inr w3)))"

text \<open>\<^verbatim>\<open>install_yuzu\<close>: the comparison with the recorded version comes first.\<close>

definition install_yuzu :: "env \<Rightarrow> string \<Rightarrow> string \<Rightarrow> world \<Rightarrow> error + world" where
  "install_yuzu e target_version br w =
     (if Some target_version = yuzu_version (yuzu w) then Inr w
      else if br \<noteq> ''eden'' then Inl unsupported_branch
      else (case install_eden e target_version w of
              Inl x \<Rightarrow> Inl x
            | Inr w1 \<Rightarrow>
                (let yuzu_dir = Path e (yuzu_path (yuzu w1)) in
                 case mkdir_parents e yuzu_dir (files w1) of
                   Inl x \<Rightarrow> Inl x
                 | Inr fs2 \<Rightarrow>
                     (let w2 = w1\<lparr>files := fs2\<rparr>;
                          exe_path = get_yuzu_exe_path e w2;
                          w3 = (if rename_yuzu_to_cemu w2 \<and> exists exe_path w2
                                then w2\<lparr>files := os_replace exe_path (joinpath yuzu_dir [''cemu.exe'']) (files w2)\<rparr>
                                else w2);
                          w4 = w3\<lparr>yuzu := (yuzu w3)\<lparr>yuzu_version := Some target_version, branch := Some br\<rparr>\<rparr>;
                          w5 = dump_config w4
                      in case check_and_install_msvc e (files w5) of
                           Inl x \<Rightarrow> Inl x
                         | Inr fs \<Rightarrow> Inr (w5\<lparr>files := fs\<rparr>)))))"

definition install_firmware_to_yuzu :: "env \<Rightarrow> string option \<Rightarrow> world \<Rightarrow> error + world" where
  "install_firmware_to_yuzu e firmware_version w =
     (if firmware_version = yuzu_firmware (yuzu w) then Inr w
      else (case get_yuzu_nand_path e w of
              Inl x \<Rightarrow> Inl x
            | Inr nand \<Rightarrow>
                (let firmware_path = joinpath nand [''system'', ''Contents'', ''registered''] in
                 case install_firmware e firmware_version firmware_path (files w) of
                   Inl x \<Rightarrow> Inl x
                 | Inr (new_version, fs) \<Rightarrow>
                     (let w1 = w\<lparr>files := fs\<rparr> in
                      if truthy new_version
                      then Inr (dump_config (w1\<lparr>yuzu := (yuzu w1)\<lparr>yuzu_firmware := new_version\<rparr>\<rparr>))
                      else Inr w1))))"

section \<open>Version detector\<close>

text \<open>The \<^verbatim>\<open>for window_name in ...\<close> loop: the locals \<^verbatim>\<open>(version, branch)\<close> after it. The
  first title with a recognised prefix ends the loop.\<close>

fun window_loop :: "string list \<Rightarrow> string option \<times> string option \<Rightarrow> string option \<times> string option" where
  "window_loop [] vb = vb"
| "window_loop (window_name # rest) vb =
     (if startswith window_name ''yuzu '' then
        (if startswith window_name ''yuzu Early Access ''
         then (Some (drop 18 window_name), Some ''ea'')
         else (Some (drop 5 window_name), Some ''mainline''))
      else if startswith window_name ''Eden | ''
      then (Some (drop 7 window_name), Some ''eden'')
      else window_loop rest vb)"

text \<open>The \<^verbatim>\<open>while try_cnt < 30 and not version\<close> loop inside the \<^verbatim>\<open>try\<close>: an exception of
  the enumeration leaves the loop with the locals as they are.\<close>

function poll_loop :: "env \<Rightarrow> nat \<Rightarrow> string option \<times> string option \<Rightarrow> string option \<times> string option" where
  "poll_loop e try_cnt vb =
     (if try_cnt < 30 \<and> \<not> truthy (fst vb) then
        (case get_all_window_name e try_cnt of
           Inl x \<Rightarrow> vb
         | Inr window_names \<Rightarrow> poll_loop e (Suc try_cnt) (window_loop window_names vb))
      else vb)"
  by pat_completeness auto
termination
  by (relation "measure (\<lambda>(e, try_cnt, vb). 30 - try_cnt)") auto

declare poll_loop.simps [simp del]

text \<open>A title that ends the \<^verbatim>\<open>for\<close> loop: it has one of the recognised prefixes.\<close>

definition recognised :: "string \<Rightarrow> bool" where
  "recognised window_name = (startswith window_name ''yuzu '' \<or> startswith window_name ''Eden | '')"

text \<open>\<^verbatim>\<open>p.name\<close>: the last part, empty for the empty path.\<close>

definition path_name :: "path \<Rightarrow> string" where
  "path_name p = (if p = [] then [] else last p)"

text \<open>\<^verbatim>\<open>detect_yuzu_version\<close>: returns the version found (or \<^verbatim>\<open>None\<close>) and the new state.
  What the launched emulator does to the file system is outside the model.\<close>

definition detect_yuzu_version :: "env \<Rightarrow> world \<Rightarrow> error + (string option \<times> world)" where
  "detect_yuzu_version e w =
     (let yz_path = get_yuzu_exe_path e w in
      if \<not> exists yz_path w
      then Inr (None, dump_config (w\<lparr>yuzu := (yuzu w)\<lparr>yuzu_version := None\<rparr>\<rparr>))
      else if find_all_instances e (path_name yz_path) \<noteq> [] then Inr (None, w)
      else (case Popen e (absolute e yz_path) of
              Some x \<Rightarrow> Inl x
            | None \<Rightarrow>
                (let vb = poll_loop e 0 (None, None);
                     version = fst vb;
                     w1 = (if truthy version then w\<lparr>yuzu := (yuzu w)\<lparr>branch := snd vb\<rparr>\<rparr> else w);
                     w2 = w1\<lparr>yuzu := (yuzu w1)\<lparr>yuzu_version := version\<rparr>\<rparr>
                 in Inr (version, dump_config w2))))"

definition start_yuzu :: "env \<Rightarrow> world \<Rightarrow> error + unit" where
  "start_yuzu e w =
     (let yz_path = get_yuzu_exe_path e w in
      if exists yz_path w then
        (case Popen e yz_path of Some x \<Rightarrow> Inl x | None \<Rightarrow> Inr ())
      else Inl (IgnoredException (''yuzu not exist in ['' @ str_of e yz_path @ '']'')))"

section \<open>A concrete environment and state\<close>

text \<open>
  One environment and one state on which the definitions are evaluated: paths are split
  at \<^verbatim>\<open>/\<close>, the release feed knows version 1.2.3 with two assets, the archive holds
  \<^verbatim>\<open>eden.exe\<close>, no emulator is running, and the emulator's window is titled
  \<^verbatim>\<open>Eden | 1.2.3\<close>. \<^verbatim>\<open>D:/Yuzu/eden.exe\<close> is a regular file, so no directory can be made
  below it.
\<close>

fun split_path :: "string \<Rightarrow> string \<Rightarrow> path" where
  "split_path cur [] = (if cur = [] then [] else [cur])"
| "split_path cur (c # cs) =
     (if c = CHR ''/'' then (if cur = [] then split_path [] cs else cur # split_path [] cs)
      else split_path (cur @ [c]) cs)"

fun join_path :: "path \<Rightarrow> string" where
  "join_path [] = []"
| "join_path [p] = p"
| "join_path (p # q # ps) = p @ ''/'' @ join_path (q # ps)"

text \<open>A stand-in for the decoder: every escape \<^verbatim>\<open>\xHHHH\<close> or \<^verbatim>\<open>\uHHHH\<close> becomes one
  character, shown as \<^verbatim>\<open>?\<close>.\<close>

fun example_decode :: "string \<Rightarrow> string" where
  "example_decode (c1 # c2 # h1 # h2 # h3 # h4 # rest) =
     (if c1 = CHR 0x5C \<and> (c2 = CHR ''x'' \<or> c2 = CHR ''u'')
      then CHR ''?'' # example_decode rest
      else c1 # example_decode (c2 # h1 # h2 # h3 # h4 # rest))"
| "example_decode (c # rest) = c # example_decode rest"
| "example_decode [] = []"

text \<open>The interpolation of values that hold no reference \<^verbatim>\<open>%(name)s\<close>: \<^verbatim>\<open>%%\<close> becomes \<^verbatim>\<open>%\<close>,
  and a \<^verbatim>\<open>%\<close> followed by anything else raises.\<close>

fun example_interpolation :: "string \<Rightarrow> error + string" where
  "example_interpolation [] = Inr []"
| "example_interpolation [c] =
     (if c = CHR ''%'' then Inl (Raised ''InterpolationSyntaxError'') else Inr [c])"
| "example_interpolation (c # d # rest) =
     (if c = CHR ''%'' then
        (if d = CHR ''%'' then
           (case example_interpolation rest of
              Inl x \<Rightarrow> Inl x
            | Inr v \<Rightarrow> Inr (CHR ''%'' # v))
         else Inl (Raised ''InterpolationSyntaxError''))
      else (case example_interpolation (d # rest) of
              Inl x \<Rightarrow> Inl x
            | Inr v \<Rightarrow> Inr (c # v)))"

definition example_release :: release_info where
  "example_release =
     \<lparr>tag_name = Some ''v1.2.3'',
      assets = [\<lparr>name = ''Eden-Source-v1.2.3.tar.zst'', download_url = ''https://example.org/src''\<rparr>,
                \<lparr>name = ''Eden-Windows-v1.2.3-amd64.zip'', download_url = ''https://example.org/win''\<rparr>]\<rparr>"

definition example_env :: env where
  "example_env =
     \<lparr>Path = split_path [],
      absolute = (\<lambda>p. p),
      str_of = join_path,
      path_eq = (\<lambda>p q. p = q),
      gettempdir = ''T:/tmp'',
      appdata = Some ''C:/AppData'',
      YuzuConfig_default =
        \<lparr>yuzu_path = ''D:/Yuzu'', yuzu_version = None, yuzu_firmware = None, branch = None\<rparr>,
      get_yuzu_release_info_by_version =
        (\<lambda>v b. if v = ''1.2.3'' then Inr example_release
               else Inr \<lparr>tag_name = None, assets = []\<rparr>),
      get_github_download_url = (\<lambda>u. u),
      download = (\<lambda>u fs. Inr ([[''T:'', ''eden.zip'']], insert [''T:'', ''eden.zip''] fs)),
      uncompress = (\<lambda>pkg td fs. Inr (insert (td @ [''eden.exe'']) (insert td fs))),
      glob = (\<lambda>d pat fs. []),
      copytree = (\<lambda>src dst fs. Inr (insert (dst @ [''eden.exe'']) (insert dst fs))),
      rmtree = (\<lambda>d fs. Inr (fs - {d, d @ [''eden.exe'']})),
      check_and_install_msvc = (\<lambda>fs. Inr fs),
      install_firmware = (\<lambda>v d fs. Inr (v, insert d fs)),
      find_all_instances = (\<lambda>n. []),
      Popen = (\<lambda>p. None),
      get_all_window_name = (\<lambda>k. Inr [''Program Manager'', ''Eden | 1.2.3'']),
      ConfigParser_read =
        (\<lambda>p. Inr [''Data%20Storage'' \<mapsto>
                     [(''nand_directory'', ''E:/nand''), (''load_directory'', ''E:/load'')]]),
      before_get = (\<lambda>ds raw. example_interpolation raw),
      unescape = (\<lambda>s. Inr (example_decode s)),
      mkdir_error =
        (\<lambda>p fs. if prefix [''D:'', ''Yuzu'', ''eden.exe''] p then Some (Raised ''OSError'')
                else None),
      add_yuzu_history = (\<lambda>c h. h(yuzu_path c \<mapsto> c))\<rparr>"

definition example_world :: world where
  "example_world =
     \<lparr>yuzu = \<lparr>yuzu_path = ''D:/Yuzu'', yuzu_version = Some ''1.0.0'', yuzu_firmware = None,
              branch = Some ''eden''\<rparr>,
      rename_yuzu_to_cemu = False,
      autoDeleteAfterInstall = True,
      dumped = None,
      yuzu_history = Map.empty,
      files = {[''D:''], [''D:'', ''Yuzu''], [''D:'', ''Yuzu'', ''eden.exe'']}\<rparr>"

text \<open>The example environment with other window titles: the first enumeration sees no
  emulator window yet, every later one yields \<open>ws\<close>.\<close>

definition windows_env :: "string list \<Rightarrow> env" where
  "windows_env ws =
     example_env\<lparr>get_all_window_name :=
       (\<lambda>k. if k = 0 then Inr [''Program Manager''] else Inr ws)\<rparr>"

text \<open>The example environment with another release feed: every version resolves to a
  tagged release with the assets \<open>as\<close>.\<close>

definition assets_env :: "asset list \<Rightarrow> env" where
  "assets_env as =
     example_env\<lparr>get_yuzu_release_info_by_version :=
       (\<lambda>v b. Inr \<lparr>tag_name = Some ''v1.2.3'', assets = as\<rparr>)\<rparr>"

text \<open>The example state with an in-tree user folder that holds a Qt config file, and the
  example environment in which that file has the section \<open>ds\<close>.\<close>

definition qt_world :: world where
  "qt_world =
     example_world\<lparr>files :=
       {[''D:''], [''D:'', ''Yuzu''], [''D:'', ''Yuzu'', ''eden.exe''],
        [''D:'', ''Yuzu'', ''user''], [''D:'', ''Yuzu'', ''user'', ''config''],
        [''D:'', ''Yuzu'', ''user'', ''config'', ''qt-config.ini'']}\<rparr>"

definition qt_env :: "ini_section \<Rightarrow> env" where
  "qt_env ds = example_env\<lparr>ConfigParser_read := (\<lambda>p. Inr [''Data%20Storage'' \<mapsto> ds])\<rparr>"

text \<open>The same with a Qt config file that cannot be parsed.\<close>

definition broken_qt_env :: env where
  "broken_qt_env = example_env\<lparr>ConfigParser_read := (\<lambda>p. Inl (Raised ''ParsingError''))\<rparr>"

text \<open>Variants of the example environment: an emulator process is running; the copy into
  the install directory is refused; the window enumeration raises.\<close>

definition busy_env :: env where
  "busy_env = example_env\<lparr>find_all_instances := (\<lambda>n. if n = ''eden.exe'' then [4242] else [])\<rparr>"

definition copy_fail_env :: env where
  "copy_fail_env = example_env\<lparr>copytree := (\<lambda>src dst fs. Inl (Raised ''PermissionError''))\<rparr>"

definition window_fail_env :: env where
  "window_fail_env = example_env\<lparr>get_all_window_name := (\<lambda>k. Inl (Raised ''OSError''))\<rparr>"

section \<open>Properties\<close>

lemma exe_loop_Some:
  "exe_loop yz_path w ns = Some p \<Longrightarrow> \<exists>n \<in> set ns. p = yz_path @ [n]"
  by (induction ns) (auto simp: joinpath_def split: if_splits)

text \<open>
  C9: for every configured \<open>yuzu_path\<close> and whichever candidate executables exist, the
  executable path resolver returns a path that has the parts of \<open>Path(yuzu_path)\<close> as a
  proper prefix: it is that path followed by one of the candidate executable names.
\<close>

theorem get_yuzu_exe_path_inside:
  "prefix (Path e (yuzu_path (yuzu w))) (get_yuzu_exe_path e w)
   \<and> (\<exists>n. n \<in> set detect_exe_list
          \<and> get_yuzu_exe_path e w = Path e (yuzu_path (yuzu w)) @ [n])"
proof -
  let ?b = "Path e (yuzu_path (yuzu w))"
  have "\<exists>n. n \<in> set detect_exe_list \<and> get_yuzu_exe_path e w = ?b @ [n]"
  proof (cases "exe_loop ?b w detect_exe_list")
    case None
    then show ?thesis
      by (auto simp: get_yuzu_exe_path_def Let_def joinpath_def detect_exe_list_def)
  next
    case (Some p)
    from exe_loop_Some[OF Some] obtain n where "n \<in> set detect_exe_list" "p = ?b @ [n]"
      by blast
    with Some show ?thesis
      by (auto simp: get_yuzu_exe_path_def Let_def joinpath_def detect_exe_list_def)
  qed
  then show ?thesis by auto
qed

subsection \<open>Unsupported branch\<close>

text \<open>
  C1 (as amended): for every branch other than \<open>eden\<close> and every version string,
  \<open>download_yuzu\<close> fails with the unsupported-branch signal; \<open>install_yuzu\<close> fails with it
  unless the requested version is the recorded one, in which case it returns normally
  and leaves the state as it is.
\<close>

theorem unsupported_branch_fails:
  "br \<noteq> ''eden'' \<Longrightarrow>
     download_yuzu e target_version br w = Inl unsupported_branch
     \<and> install_yuzu e target_version br w =
         (if Some target_version = yuzu_version (yuzu w) then Inr w else Inl unsupported_branch)"
  by (simp add: download_yuzu_def install_yuzu_def)

theorem unsupported_branch_fails_witness:
  "''ea'' \<noteq> ''eden''
   \<and> download_yuzu example_env ''1.2.3'' ''ea'' example_world = Inl unsupported_branch
   \<and> install_yuzu example_env ''1.2.3'' ''ea'' example_world = Inl unsupported_branch"
  using unsupported_branch_fails [of "''ea''" example_env "''1.2.3''" example_world]
  by (simp add: example_world_def)

text \<open>
  The claim as stated fails for \<open>install_yuzu\<close>: with branch \<open>ea\<close> and the recorded version
  1.0.0 requested again, the comparison with the recorded version comes first and the call
  returns normally.
\<close>

theorem install_unsupported_branch_counterexample:
  "''ea'' \<noteq> ''eden''
   \<and> yuzu_version (yuzu example_world) = Some ''1.0.0''
   \<and> install_yuzu example_env ''1.0.0'' ''ea'' example_world = Inr example_world"
  by (simp add: install_yuzu_def example_world_def)

subsection \<open>Same version: nothing is installed\<close>

text \<open>
  C4: when the requested version equals the version recorded in the configuration,
  \<open>install_yuzu\<close> returns normally and the whole state (configuration, persisted
  configuration, history and file system) is unchanged, for every branch argument.
\<close>

theorem install_same_version_noop:
  "yuzu_version (yuzu w) = Some target_version \<Longrightarrow> install_yuzu e target_version br w = Inr w"
  by (simp add: install_yuzu_def)

theorem install_same_version_noop_witness:
  "yuzu_version (yuzu example_world) = Some ''1.0.0''
   \<and> install_yuzu example_env ''1.0.0'' ''eden'' example_world = Inr example_world"
proof -
  have h: "yuzu_version (yuzu example_world) = Some ''1.0.0''"
    by (simp add: example_world_def)
  from install_same_version_noop [OF h] show ?thesis using h by simp
qed

subsection \<open>Version detection from window titles\<close>

text \<open>Titles without a recognised prefix are passed over; the poll loop stops as soon as a
  non-empty version has been read.\<close>

lemma window_loop_skip:
  "\<forall>t \<in> set pre. \<not> recognised t \<Longrightarrow> window_loop (pre @ rest) vb = window_loop rest vb"
  by (induction pre) (auto simp: recognised_def)

lemma window_loop_none:
  "\<forall>t \<in> set ws. \<not> recognised t \<Longrightarrow> window_loop ws vb = vb"
  using window_loop_skip [of ws "[]" vb] by simp

lemma poll_loop_stop:
  "truthy (fst vb) \<Longrightarrow> poll_loop e k vb = vb"
  by (subst poll_loop.simps) simp

lemma poll_loop_found_from:
  assumes k: "k < 30"
      and before: "\<forall>j<k. \<exists>ws. get_all_window_name e j = Inr ws \<and> (\<forall>t \<in> set ws. \<not> recognised t)"
      and at: "get_all_window_name e k = Inr ws"
      and hit: "window_loop ws (None, None) = (Some v, b)" "v \<noteq> []"
  shows "i \<le> k \<Longrightarrow> poll_loop e i (None, None) = (Some v, b)"
proof (induction "k - i" arbitrary: i)
  case 0
  then have "i = k" by simp
  with k at hit show ?case
    by (subst poll_loop.simps) (simp add: poll_loop_stop)
next
  case (Suc d)
  then have lt: "i < k" and d: "d = k - Suc i" and le: "Suc i \<le> k" by simp_all
  from before lt obtain ws' where ws': "get_all_window_name e i = Inr ws'"
      "\<forall>t \<in> set ws'. \<not> recognised t" by blast
  have "poll_loop e i (None, None) = poll_loop e (Suc i) (None, None)"
    using lt k ws' by (subst poll_loop.simps) (simp add: window_loop_none)
  with Suc.hyps(1) [OF d le] show ?case by simp
qed

lemma detect_found:
  assumes exe: "exists (get_yuzu_exe_path e w) w"
      and idle: "find_all_instances e (path_name (get_yuzu_exe_path e w)) = []"
      and launch: "Popen e (absolute e (get_yuzu_exe_path e w)) = None"
      and k: "k < 30"
      and before: "\<forall>j<k. \<exists>ws. get_all_window_name e j = Inr ws \<and> (\<forall>t \<in> set ws. \<not> recognised t)"
      and at: "get_all_window_name e k = Inr (pre @ title # post)"
      and pre: "\<forall>t \<in> set pre. \<not> recognised t"
      and hit: "window_loop [title] (None, None) = (Some v, b)" "v \<noteq> []"
  shows "detect_yuzu_version e w =
           Inr (Some v, dump_config (w\<lparr>yuzu := (yuzu w)\<lparr>branch := b, yuzu_version := Some v\<rparr>\<rparr>))"
proof -
  have "recognised title"
    using hit by (auto simp: recognised_def split: if_splits)
  then have "window_loop (title # post) (None, None) = window_loop [title] (None, None)"
    by (auto simp: recognised_def)
  with hit window_loop_skip [OF pre, of "title # post" "(None, None)"]
  have "window_loop (pre @ title # post) (None, None) = (Some v, b)" by simp
  from poll_loop_found_from [OF k before at this hit(2), of 0]
  have "poll_loop e 0 (None, None) = (Some v, b)" by simp
  with exe idle launch hit(2) show ?thesis
    by (simp add: detect_yuzu_version_def Let_def)
qed


text \<open>
  C5 (as amended): when the executable exists, no instance is running, the launch succeeds,
  the enumerations before the \<open>k\<close>-th (\<open>k < 30\<close>) show no title with a recognised prefix and
  the \<open>k\<close>-th shows a list whose first title with a recognised prefix (\<^verbatim>\<open>yuzu \<close> or
  \<^verbatim>\<open>Eden | \<close>) is \<open>title\<close>, then: for \<^verbatim>\<open>Eden | 1.2.3\<close> the detector returns version 1.2.3 and
  records branch eden (offset 7); for \<^verbatim>\<open>yuzu Early Access 1234\<close> version 1234 and branch ea
  (offset 18); for \<^verbatim>\<open>yuzu 1234\<close> version 1234 and branch mainline (offset 5). The version
  and the branch are written to the configuration, which is then persisted.
\<close>

theorem detect_extracts_version:
  assumes exe: "exists (get_yuzu_exe_path e w) w"
      and idle: "find_all_instances e (path_name (get_yuzu_exe_path e w)) = []"
      and launch: "Popen e (absolute e (get_yuzu_exe_path e w)) = None"
      and k: "k < 30"
      and before: "\<forall>j<k. \<exists>ws. get_all_window_name e j = Inr ws \<and> (\<forall>t \<in> set ws. \<not> recognised t)"
      and at: "get_all_window_name e k = Inr (pre @ title # post)"
      and pre: "\<forall>t \<in> set pre. \<not> recognised t"
  shows "(title = ''Eden | 1.2.3'' \<longrightarrow>
            detect_yuzu_version e w =
              Inr (Some ''1.2.3'',
                   dump_config (w\<lparr>yuzu := (yuzu w)\<lparr>branch := Some ''eden'', yuzu_version := Some ''1.2.3''\<rparr>\<rparr>)))
       \<and> (title = ''yuzu Early Access 1234'' \<longrightarrow>
            detect_yuzu_version e w =
              Inr (Some ''1234'',
                   dump_config (w\<lparr>yuzu := (yuzu w)\<lparr>branch := Some ''ea'', yuzu_version := Some ''1234''\<rparr>\<rparr>)))
       \<and> (title = ''yuzu 1234'' \<longrightarrow>
            detect_yuzu_version e w =
              Inr (Some ''1234'',
                   dump_config (w\<lparr>yuzu := (yuzu w)\<lparr>branch := Some ''mainline'', yuzu_version := Some ''1234''\<rparr>\<rparr>)))"
proof (intro conjI impI)
  assume t: "title = ''Eden | 1.2.3''"
  have "window_loop [title] (None, None) = (Some ''1.2.3'', Some ''eden'')"
    by (simp add: t startswith_def)
  from detect_found [OF exe idle launch k before at pre this] show
    "detect_yuzu_version e w =
       Inr (Some ''1.2.3'',
            dump_config (w\<lparr>yuzu := (yuzu w)\<lparr>branch := Some ''eden'', yuzu_version := Some ''1.2.3''\<rparr>\<rparr>))"
    by simp
next
  assume t: "title = ''yuzu Early Access 1234''"
  have "window_loop [title] (None, None) = (Some ''1234'', Some ''ea'')"
    by (simp add: t startswith_def)
  from detect_found [OF exe idle launch k before at pre this] show
    "detect_yuzu_version e w =
       Inr (Some ''1234'',
            dump_config (w\<lparr>yuzu := (yuzu w)\<lparr>branch := Some ''ea'', yuzu_version := Some ''1234''\<rparr>\<rparr>))"
    by simp
next
  assume t: "title = ''yuzu 1234''"
  have "window_loop [title] (None, None) = (Some ''1234'', Some ''mainline'')"
    by (simp add: t startswith_def)
  from detect_found [OF exe idle launch k before at pre this] show
    "detect_yuzu_version e w =
       Inr (Some ''1234'',
            dump_config (w\<lparr>yuzu := (yuzu w)\<lparr>branch := Some ''mainline'', yuzu_version := Some ''1234''\<rparr>\<rparr>))"
    by simp
qed

lemma example_exe:
  "get_yuzu_exe_path (windows_env ws) example_world = [''D:'', ''Yuzu'', ''eden.exe'']"
  by (simp add: get_yuzu_exe_path_def windows_env_def example_env_def example_world_def
      detect_exe_list_def exists_def joinpath_def)

lemma windows_env_hyps:
  "exists (get_yuzu_exe_path (windows_env ws) example_world) example_world"
  "find_all_instances (windows_env ws) (path_name (get_yuzu_exe_path (windows_env ws) example_world)) = []"
  "Popen (windows_env ws) (absolute (windows_env ws) (get_yuzu_exe_path (windows_env ws) example_world)) = None"
  "\<forall>j<1. \<exists>ws'. get_all_window_name (windows_env ws) j = Inr ws' \<and> (\<forall>t \<in> set ws'. \<not> recognised t)"
  "get_all_window_name (windows_env ws) 1 = Inr ws"
  "\<forall>t \<in> set [''Program Manager'']. \<not> recognised t"
  by (simp_all add: example_exe)
     (simp_all add: windows_env_def example_env_def example_world_def exists_def recognised_def
       startswith_def)

lemma windows_env_at:
  "get_all_window_name (windows_env ([''Program Manager''] @ title # [])) 1
     = Inr ([''Program Manager''] @ title # [])"
  by (simp add: windows_env_def example_env_def)

theorem detect_extracts_version_witness:
  "detect_yuzu_version (windows_env [''Program Manager'', ''Eden | 1.2.3'']) example_world =
     Inr (Some ''1.2.3'',
          dump_config (example_world\<lparr>yuzu := (yuzu example_world)\<lparr>branch := Some ''eden'', yuzu_version := Some ''1.2.3''\<rparr>\<rparr>))
   \<and> detect_yuzu_version (windows_env [''Program Manager'', ''yuzu Early Access 1234'']) example_world =
     Inr (Some ''1234'',
          dump_config (example_world\<lparr>yuzu := (yuzu example_world)\<lparr>branch := Some ''ea'', yuzu_version := Some ''1234''\<rparr>\<rparr>))
   \<and> detect_yuzu_version (windows_env [''Program Manager'', ''yuzu 1234'']) example_world =
     Inr (Some ''1234'',
          dump_config (example_world\<lparr>yuzu := (yuzu example_world)\<lparr>branch := Some ''mainline'', yuzu_version := Some ''1234''\<rparr>\<rparr>))"
proof -
  have one: "(1::nat) < 30" by simp
  note a = detect_extracts_version [OF windows_env_hyps(1,2,3) one windows_env_hyps(4)
      windows_env_at windows_env_hyps(6)]
  show ?thesis
    using a [of "''Eden | 1.2.3''"] a [of "''yuzu Early Access 1234''"] a [of "''yuzu 1234''"]
    by simp
qed

text \<open>
  The claim as stated, for every list containing the title, fails: in the list
  \<^verbatim>\<open>['yuzu 1234', 'Eden | 1.2.3']\<close> the first recognised title ends the loop, and the
  detector reports 1234 on branch mainline although the list contains \<^verbatim>\<open>Eden | 1.2.3\<close>.
\<close>

theorem detect_first_title_wins_counterexample:
  "''Eden | 1.2.3'' \<in> set [''yuzu 1234'', ''Eden | 1.2.3'']
   \<and> detect_yuzu_version (windows_env [''yuzu 1234'', ''Eden | 1.2.3'']) example_world =
       Inr (Some ''1234'',
            dump_config (example_world\<lparr>yuzu := (yuzu example_world)\<lparr>branch := Some ''mainline'', yuzu_version := Some ''1234''\<rparr>\<rparr>))"
proof -
  have "poll_loop (windows_env [''yuzu 1234'', ''Eden | 1.2.3'']) 0 (None, None)
          = (Some ''1234'', Some ''mainline'')"
    by (simp add: poll_loop.simps [of _ 0] poll_loop.simps [of _ "Suc 0"] poll_loop_stop
        windows_env_def example_env_def startswith_def)
  then show ?thesis
    using windows_env_hyps(1,2,3) [of "[''yuzu 1234'', ''Eden | 1.2.3'']"]
    by (simp add: detect_yuzu_version_def Let_def)
qed

subsection \<open>Asset selection\<close>

text \<open>The loop returns the resolved URL of the first asset, in list order, that satisfies
  one of the three patterns.\<close>

lemma asset_loop_find:
  "asset_loop e xs =
     map_option (\<lambda>a. get_github_download_url e (download_url a)) (find asset_matches xs)"
proof (induction xs)
  case Nil
  show ?case by simp
next
  case (Cons a xs)
  show ?case
  proof (cases "asset_matches a")
    case True
    then show ?thesis by (auto simp: asset_matches_def)
  next
    case False
    then show ?thesis using Cons.IH by (auto simp: asset_matches_def)
  qed
qed

lemma find_unique:
  "a \<in> set xs \<Longrightarrow> P a \<Longrightarrow> (\<forall>b \<in> set xs. P b \<longrightarrow> b = a) \<Longrightarrow> find P xs = Some a"
proof (induction xs)
  case Nil
  then show ?case by simp
next
  case (Cons x xs)
  show ?case
  proof (cases "P x")
    case True
    with Cons.prems(3) have "x = a" by auto
    with True show ?thesis by simp
  next
    case False
    from False Cons.prems(1,2) have mem: "a \<in> set xs" by auto
    from Cons.prems(3) have uniq: "\<forall>b \<in> set xs. P b \<longrightarrow> b = a" by simp
    from Cons.IH [OF mem Cons.prems(2) uniq] False show ?thesis by simp
  qed
qed

text \<open>
  C6 (as amended): for a release that carries a tag, the resolver scans the assets in
  order and selects the first one whose name ends in \<^verbatim>\<open>.7z\<close>, or starts with
  \<^verbatim>\<open>Windows-Yuzu-EA-\<close> and ends in \<^verbatim>\<open>.zip\<close>, or starts with \<^verbatim>\<open>Eden-Windows-\<close> and ends in
  \<^verbatim>\<open>.zip\<close>; the URL it uses is what \<^verbatim>\<open>get_github_download_url\<close> yields for that asset's
  \<^verbatim>\<open>download_url\<close>. If no asset matches, or if that URL is empty, \<open>download_yuzu\<close> fails
  with the signal \<^verbatim>\<open>Fail to fetch yuzu download url.\<close>; otherwise it downloads from that
  URL. A list with exactly one matching asset selects that asset, whatever its length and
  its other entries.
\<close>

theorem asset_selection:
  assumes rel: "get_yuzu_release_info_by_version e target_version ''eden'' = Inr release"
      and tag: "truthy (tag_name release)"
  shows "asset_loop e (assets release) =
           map_option (\<lambda>a. get_github_download_url e (download_url a))
             (find asset_matches (assets release))
       \<and> (find asset_matches (assets release) = None \<longrightarrow>
            download_yuzu e target_version ''eden'' w = Inl no_download_url)
       \<and> (\<forall>a. find asset_matches (assets release) = Some a \<longrightarrow>
            download_yuzu e target_version ''eden'' w =
              (if get_github_download_url e (download_url a) = [] then Inl no_download_url
               else (case download e (get_github_download_url e (download_url a)) (files w) of
                       Inl x \<Rightarrow> Inl x
                     | Inr (fl, fs) \<Rightarrow>
                         (case fl of
                            [] \<Rightarrow> Inl (Raised ''IndexError'')
                          | file # _ \<Rightarrow> Inr (file, w\<lparr>files := fs\<rparr>)))))
       \<and> (\<forall>a. a \<in> set (assets release) \<and> asset_matches a
              \<and> (\<forall>b \<in> set (assets release). asset_matches b \<longrightarrow> b = a) \<longrightarrow>
            find asset_matches (assets release) = Some a)"
proof (intro conjI allI impI)
  show "asset_loop e (assets release) =
           map_option (\<lambda>a. get_github_download_url e (download_url a))
             (find asset_matches (assets release))"
    by (rule asset_loop_find)
next
  assume "find asset_matches (assets release) = None"
  then show "download_yuzu e target_version ''eden'' w = Inl no_download_url"
    using rel tag by (simp add: download_yuzu_def asset_loop_find)
next
  fix a assume "find asset_matches (assets release) = Some a"
  then show "download_yuzu e target_version ''eden'' w =
              (if get_github_download_url e (download_url a) = [] then Inl no_download_url
               else (case download e (get_github_download_url e (download_url a)) (files w) of
                       Inl x \<Rightarrow> Inl x
                     | Inr (fl, fs) \<Rightarrow>
                         (case fl of
                            [] \<Rightarrow> Inl (Raised ''IndexError'')
                          | file # _ \<Rightarrow> Inr (file, w\<lparr>files := fs\<rparr>))))"
    using rel tag by (simp add: download_yuzu_def asset_loop_find)
next
  fix a
  assume "a \<in> set (assets release) \<and> asset_matches a
              \<and> (\<forall>b \<in> set (assets release). asset_matches b \<longrightarrow> b = a)"
  then show "find asset_matches (assets release) = Some a"
    using find_unique [of a "assets release" asset_matches] by blast
qed

lemma assets_env_release:
  "get_yuzu_release_info_by_version (assets_env xs) ''1.2.3'' ''eden''
     = Inr \<lparr>tag_name = Some ''v1.2.3'', assets = xs\<rparr>"
  by (simp add: assets_env_def)

theorem asset_selection_witness:
  "download_yuzu
     (assets_env [\<lparr>name = ''README.md'', download_url = ''https://example.org/readme''\<rparr>,
                  \<lparr>name = ''Eden-Windows-v1.2.3.zip'', download_url = ''https://example.org/win''\<rparr>,
                  \<lparr>name = ''notes.txt'', download_url = ''https://example.org/notes''\<rparr>])
     ''1.2.3'' ''eden'' example_world
     = Inr ([''T:'', ''eden.zip''],
            example_world\<lparr>files := insert [''T:'', ''eden.zip''] (files example_world)\<rparr>)
   \<and> download_yuzu
       (assets_env [\<lparr>name = ''README.md'', download_url = ''https://example.org/readme''\<rparr>])
       ''1.2.3'' ''eden'' example_world
     = Inl no_download_url"
proof -
  have tag: "truthy (tag_name \<lparr>tag_name = Some ''v1.2.3'', assets = xs\<rparr>)" for xs :: "asset list"
    by simp
  note sel = asset_selection [OF assets_env_release tag, of _ example_world]
  let ?win = "\<lparr>name = ''Eden-Windows-v1.2.3.zip'', download_url = ''https://example.org/win''\<rparr>"
  let ?three = "[\<lparr>name = ''README.md'', download_url = ''https://example.org/readme''\<rparr>, ?win,
                  \<lparr>name = ''notes.txt'', download_url = ''https://example.org/notes''\<rparr>]"
  have f3: "find asset_matches ?three = Some ?win"
    by (simp add: asset_matches_def startswith_def endswith_def)
  have f1: "find asset_matches [\<lparr>name = ''README.md'', download_url = ''https://example.org/readme''\<rparr>] = None"
    by (simp add: asset_matches_def startswith_def endswith_def)
  from sel [of ?three] f3 have
    "download_yuzu (assets_env ?three) ''1.2.3'' ''eden'' example_world
       = Inr ([''T:'', ''eden.zip''],
              example_world\<lparr>files := insert [''T:'', ''eden.zip''] (files example_world)\<rparr>)"
    by (simp add: assets_env_def example_env_def)
  moreover from sel [of "[\<lparr>name = ''README.md'', download_url = ''https://example.org/readme''\<rparr>]"] f1
  have "download_yuzu
       (assets_env [\<lparr>name = ''README.md'', download_url = ''https://example.org/readme''\<rparr>])
       ''1.2.3'' ''eden'' example_world
     = Inl no_download_url"
    by simp
  ultimately show ?thesis by simp
qed

text \<open>
  The claim as stated fails when the selected URL is empty: the list below holds exactly
  one matching asset, and the resolver fails as if none had matched.
\<close>

theorem asset_empty_url_counterexample:
  "asset_matches \<lparr>name = ''eden.7z'', download_url = []\<rparr>
   \<and> download_yuzu (assets_env [\<lparr>name = ''eden.7z'', download_url = []\<rparr>])
       ''1.2.3'' ''eden'' example_world
     = Inl (IgnoredException ''Fail to fetch yuzu download url.'')"
  by (simp add: asset_matches_def endswith_def download_yuzu_def assets_env_def example_env_def
      no_download_url_def)

subsection \<open>NAND and load paths\<close>

text \<open>The dictionary of the log line is built exactly when every option of the section
  interpolates.\<close>

lemma dict_items_fails:
  "(k, raw) \<in> set rest \<Longrightarrow> before_get e ds raw = Inl x \<Longrightarrow> \<exists>y. dict_items e ds rest = Inl y"
proof (induction rest)
  case Nil
  then show ?case by simp
next
  case (Cons a rest)
  obtain k' raw' where a: "a = (k', raw')" by (cases a)
  show ?case
  proof (cases "(k, raw) = a")
    case True
    with a Cons.prems(2) show ?thesis by simp
  next
    case False
    with Cons.prems(1) have "(k, raw) \<in> set rest" by simp
    from Cons.IH [OF this Cons.prems(2)] obtain y where "dict_items e ds rest = Inl y" ..
    then show ?thesis by (simp add: a split: sum.splits)
  qed
qed

lemma dict_items_succeeds:
  "dict_items e ds rest = Inr d \<Longrightarrow> (k, raw) \<in> set rest \<Longrightarrow> \<exists>v. before_get e ds raw = Inr v"
proof (induction rest arbitrary: d)
  case Nil
  then show ?case by simp
next
  case (Cons a rest)
  obtain k' raw' where a: "a = (k', raw')" by (cases a)
  from Cons.prems(1) a obtain v' d' where
    v': "before_get e ds raw' = Inr v'" and d': "dict_items e ds rest = Inr d'"
    by (auto split: sum.splits)
  show ?case
  proof (cases "(k, raw) = a")
    case True
    with a v' show ?thesis by auto
  next
    case False
    with Cons.prems(2) have "(k, raw) \<in> set rest" by simp
    from Cons.IH [OF d' this] show ?thesis .
  qed
qed

lemma data_storage_interpolates:
  assumes "get_yuzu_data_storage_config e user_path w = Inr (Some ds)"
      and "map_of ds k = Some raw"
  shows "\<exists>v. before_get e ds raw = Inr v"
proof -
  from assms(1) obtain d where "dict_items e ds ds = Inr d"
    by (auto simp: get_yuzu_data_storage_config_def Let_def
        split: if_splits sum.splits option.splits)
  moreover from assms(2) have "(k, raw) \<in> set ds" by (rule map_of_SomeD)
  ultimately show ?thesis by (rule dict_items_succeeds)
qed

lemma data_storage_fails:
  assumes "exists (joinpath user_path [''config'', ''qt-config.ini'']) w"
      and "ConfigParser_read e (absolute e (joinpath user_path [''config'', ''qt-config.ini''])) = Inr sections"
      and "sections ''Data%20Storage'' = Some ds"
      and "(k, raw) \<in> set ds"
      and "before_get e ds raw = Inl x"
  shows "\<exists>y. get_yuzu_data_storage_config e user_path w = Inl y"
proof -
  from dict_items_fails [OF assms(4,5)] obtain y where "dict_items e ds ds = Inl y" ..
  with assms(1,2,3) show ?thesis
    by (simp add: get_yuzu_data_storage_config_def Let_def)
qed

lemma nand_default_on_failure:
  "get_yuzu_user_path e w = Inr user_path \<Longrightarrow>
   get_yuzu_data_storage_config e user_path w = Inl x \<Longrightarrow>
   get_yuzu_nand_path e w = Inr (joinpath user_path [''nand''])"
  by (simp add: get_yuzu_nand_path_def Let_def)

lemma load_default_on_failure:
  "get_yuzu_user_path e w = Inr user_path \<Longrightarrow>
   get_yuzu_data_storage_config e user_path w = Inl x \<Longrightarrow>
   get_yuzu_load_path e w = Inr (joinpath user_path [''load''])"
  by (simp add: get_yuzu_load_path_def Let_def)

lemma nand_of_value:
  assumes "get_yuzu_user_path e w = Inr user_path"
      and "get_yuzu_data_storage_config e user_path w = Inr (Some ds)"
      and "map_of ds ''nand_directory'' = Some raw"
      and "before_get e ds raw = Inr v"
  shows "get_yuzu_nand_path e w =
           Inr (case decode_yuzu_path e (Some v) of
                  Inl x \<Rightarrow> joinpath user_path [''nand'']
                | Inr d \<Rightarrow> Path e d)"
proof -
  from assms(3) have "ds \<noteq> []" by auto
  with assms show ?thesis
    by (simp add: get_yuzu_nand_path_def Let_def)
qed

lemma load_of_value:
  assumes "get_yuzu_user_path e w = Inr user_path"
      and "get_yuzu_data_storage_config e user_path w = Inr (Some ds)"
      and "map_of ds ''load_directory'' = Some raw"
      and "before_get e ds raw = Inr v"
  shows "get_yuzu_load_path e w =
           Inr (if contains unicode_marker v
                then (case decode_yuzu_path e (Some v) of
                        Inl x \<Rightarrow> joinpath user_path [''load'']
                      | Inr d \<Rightarrow> Path e d)
                else Path e v)"
proof -
  from assms(3) have "ds \<noteq> []" by auto
  with assms show ?thesis
    by (simp add: get_yuzu_load_path_def Let_def)
qed

lemma defaults_of_absent_keys:
  assumes "get_yuzu_user_path e w = Inr user_path"
      and "get_yuzu_data_storage_config e user_path w = Inr (Some ds)"
      and "map_of ds ''nand_directory'' = None"
      and "map_of ds ''load_directory'' = None"
  shows "get_yuzu_nand_path e w = Inr (joinpath user_path [''nand''])"
    and "get_yuzu_load_path e w = Inr (joinpath user_path [''load''])"
  using assms
  by (simp_all add: get_yuzu_nand_path_def get_yuzu_load_path_def Let_def)

text \<open>The example state resolves its user folder inside the install directory and finds
  the Qt config file there.\<close>

lemma qt_user_path:
  "get_yuzu_user_path (qt_env ds) qt_world = Inr [''D:'', ''Yuzu'', ''user'']"
  "get_yuzu_user_path broken_qt_env qt_world = Inr [''D:'', ''Yuzu'', ''user'']"
  by (simp_all add: get_yuzu_user_path_def qt_env_def broken_qt_env_def qt_world_def
      example_env_def example_world_def exists_def joinpath_def)

lemma qt_read:
  "exists (joinpath [''D:'', ''Yuzu'', ''user''] [''config'', ''qt-config.ini'']) qt_world"
  "ConfigParser_read (qt_env ds) p = Inr [''Data%20Storage'' \<mapsto> ds]"
  "before_get (qt_env ds) = (\<lambda>ds raw. example_interpolation raw)"
  "unescape (qt_env ds) = (\<lambda>s. Inr (example_decode s))"
  "Path (qt_env ds) = split_path []"
  "absolute (qt_env ds) = (\<lambda>p. p)"
  by (simp_all add: qt_env_def qt_world_def example_env_def example_world_def exists_def
      joinpath_def)

lemma broken_qt_data_storage:
  "get_yuzu_data_storage_config broken_qt_env [''D:'', ''Yuzu'', ''user''] qt_world
     = Inl (Raised ''ParsingError'')"
  by (simp add: get_yuzu_data_storage_config_def broken_qt_env_def qt_world_def
      example_env_def example_world_def exists_def joinpath_def)

text \<open>
  C7 (as amended): when the Data Storage section is read without error, so that every
  option of it interpolates, and it holds the option, the NAND resolver decodes the
  \<^verbatim>\<open>nand_directory\<close> value in every case, and the load resolver decodes the
  \<^verbatim>\<open>load_directory\<close> value only if it contains the marker \<^verbatim>\<open>\u\<close> and otherwise takes it as
  the path. The value is the one the parser yields after interpolation, which is the raw
  string of the file only where interpolation leaves it unchanged. When the decoder raises,
  the default path stands. When any option of the section fails to interpolate, both
  resolvers return the default paths and nothing is decoded.
\<close>

theorem path_decoding:
  assumes up: "get_yuzu_user_path e w = Inr user_path"
  shows "(\<forall>ds raw. get_yuzu_data_storage_config e user_path w = Inr (Some ds)
              \<and> map_of ds ''nand_directory'' = Some raw \<longrightarrow>
            (\<exists>v. before_get e ds raw = Inr v
               \<and> get_yuzu_nand_path e w =
                   Inr (case decode_yuzu_path e (Some v) of
                          Inl x \<Rightarrow> joinpath user_path [''nand'']
                        | Inr d \<Rightarrow> Path e d)))
       \<and> (\<forall>ds raw. get_yuzu_data_storage_config e user_path w = Inr (Some ds)
              \<and> map_of ds ''load_directory'' = Some raw \<longrightarrow>
            (\<exists>v. before_get e ds raw = Inr v
               \<and> get_yuzu_load_path e w =
                   Inr (if contains unicode_marker v
                        then (case decode_yuzu_path e (Some v) of
                                Inl x \<Rightarrow> joinpath user_path [''load'']
                              | Inr d \<Rightarrow> Path e d)
                        else Path e v)))
       \<and> (\<forall>sections ds k raw x.
            exists (joinpath user_path [''config'', ''qt-config.ini'']) w
              \<and> ConfigParser_read e (absolute e (joinpath user_path [''config'', ''qt-config.ini'']))
                   = Inr sections
              \<and> sections ''Data%20Storage'' = Some ds
              \<and> (k, raw) \<in> set ds \<and> before_get e ds raw = Inl x \<longrightarrow>
            get_yuzu_nand_path e w = Inr (joinpath user_path [''nand''])
            \<and> get_yuzu_load_path e w = Inr (joinpath user_path [''load'']))"
proof (intro conjI allI impI; (elim conjE)?)
  fix ds raw
  assume ds: "get_yuzu_data_storage_config e user_path w = Inr (Some ds)"
     and k: "map_of ds ''nand_directory'' = Some raw"
  from data_storage_interpolates [OF ds k] obtain v where v: "before_get e ds raw = Inr v" ..
  from nand_of_value [OF up ds k v] v
  show "\<exists>v. before_get e ds raw = Inr v
               \<and> get_yuzu_nand_path e w =
                   Inr (case decode_yuzu_path e (Some v) of
                          Inl x \<Rightarrow> joinpath user_path [''nand'']
                        | Inr d \<Rightarrow> Path e d)"
    by blast
next
  fix ds raw
  assume ds: "get_yuzu_data_storage_config e user_path w = Inr (Some ds)"
     and k: "map_of ds ''load_directory'' = Some raw"
  from data_storage_interpolates [OF ds k] obtain v where v: "before_get e ds raw = Inr v" ..
  from load_of_value [OF up ds k v] v
  show "\<exists>v. before_get e ds raw = Inr v
               \<and> get_yuzu_load_path e w =
                   Inr (if contains unicode_marker v
                        then (case decode_yuzu_path e (Some v) of
                                Inl x \<Rightarrow> joinpath user_path [''load'']
                              | Inr d \<Rightarrow> Path e d)
                        else Path e v)"
    by blast
next
  fix sections ds k raw x
  assume a: "exists (joinpath user_path [''config'', ''qt-config.ini'']) w"
    "ConfigParser_read e (absolute e (joinpath user_path [''config'', ''qt-config.ini''])) = Inr sections"
    "sections ''Data%20Storage'' = Some ds" "(k, raw) \<in> set ds" "before_get e ds raw = Inl x"
  from data_storage_fails [OF a] obtain y where
    y: "get_yuzu_data_storage_config e user_path w = Inl y" ..
  show "get_yuzu_nand_path e w = Inr (joinpath user_path [''nand''])"
    by (rule nand_default_on_failure [OF up y])
  show "get_yuzu_load_path e w = Inr (joinpath user_path [''load''])"
    by (rule load_default_on_failure [OF up y])
qed

theorem path_decoding_witness:
  "get_yuzu_nand_path
     (qt_env [(''nand_directory'', ''E:/'' @ [CHR 0x5C] @ ''x65b0/nand''),
              (''load_directory'', ''E:/'' @ [CHR 0x5C] @ ''x65b0/load'')]) qt_world
     = Inr [''E:'', ''?'', ''nand'']
   \<and> get_yuzu_load_path
     (qt_env [(''nand_directory'', ''E:/'' @ [CHR 0x5C] @ ''x65b0/nand''),
              (''load_directory'', ''E:/'' @ [CHR 0x5C] @ ''x65b0/load'')]) qt_world
     = Inr [''E:'', [CHR 0x5C] @ ''x65b0'', ''load'']
   \<and> get_yuzu_load_path
     (qt_env [(''load_directory'', ''E:/'' @ [CHR 0x5C] @ ''u65b0/load'')]) qt_world
     = Inr [''E:'', ''?'', ''load'']
   \<and> get_yuzu_nand_path (qt_env [(''nand_directory'', ''E:/100%%/nand'')]) qt_world
     = Inr [''E:'', ''100%'', ''nand'']
   \<and> get_yuzu_load_path
     (qt_env [(''load_directory'', ''E:/load''), (''screenshot_path'', ''50%'')]) qt_world
     = Inr [''D:'', ''Yuzu'', ''user'', ''load'']"
proof -
  note dec = path_decoding [OF qt_user_path(1)]
  let ?a = "[(''nand_directory'', ''E:/'' @ [CHR 0x5C] @ ''x65b0/nand''),
             (''load_directory'', ''E:/'' @ [CHR 0x5C] @ ''x65b0/load'')]"
  let ?b = "[(''load_directory'', ''E:/'' @ [CHR 0x5C] @ ''u65b0/load'')]"
  let ?c = "[(''nand_directory'', ''E:/100%%/nand'')]"
  let ?d = "[(''load_directory'', ''E:/load''), (''screenshot_path'', ''50%'')]"
  have cfg: "get_yuzu_data_storage_config (qt_env ?a) [''D:'', ''Yuzu'', ''user''] qt_world = Inr (Some ?a)"
    "get_yuzu_data_storage_config (qt_env ?b) [''D:'', ''Yuzu'', ''user''] qt_world = Inr (Some ?b)"
    "get_yuzu_data_storage_config (qt_env ?c) [''D:'', ''Yuzu'', ''user''] qt_world = Inr (Some ?c)"
    using qt_read(1) by (simp_all add: get_yuzu_data_storage_config_def qt_read Let_def)
  have a1: "get_yuzu_nand_path (qt_env ?a) qt_world = Inr [''E:'', ''?'', ''nand'']"
    using dec [of ?a, THEN conjunct1, rule_format, of ?a "''E:/'' @ [CHR 0x5C] @ ''x65b0/nand''"] cfg(1)
    by (simp add: qt_read)
  have a2: "get_yuzu_load_path (qt_env ?a) qt_world = Inr [''E:'', [CHR 0x5C] @ ''x65b0'', ''load'']"
    using dec [of ?a, THEN conjunct2, THEN conjunct1, rule_format,
        of ?a "''E:/'' @ [CHR 0x5C] @ ''x65b0/load''"] cfg(1)
    by (simp add: qt_read unicode_marker_def)
  have b: "get_yuzu_load_path (qt_env ?b) qt_world = Inr [''E:'', ''?'', ''load'']"
    using dec [of ?b, THEN conjunct2, THEN conjunct1, rule_format,
        of ?b "''E:/'' @ [CHR 0x5C] @ ''u65b0/load''"] cfg(2)
    by (simp add: qt_read unicode_marker_def)
  have c: "get_yuzu_nand_path (qt_env ?c) qt_world = Inr [''E:'', ''100%'', ''nand'']"
    using dec [of ?c, THEN conjunct1, rule_format, of ?c "''E:/100%%/nand''"] cfg(3)
    by (simp add: qt_read)
  have d: "get_yuzu_load_path (qt_env ?d) qt_world = Inr [''D:'', ''Yuzu'', ''user'', ''load'']"
    using dec [of ?d, THEN conjunct2, THEN conjunct2, rule_format,
        of "[''Data%20Storage'' \<mapsto> ?d]" ?d "''screenshot_path''" "''50%''"
           "Raised ''InterpolationSyntaxError''"] qt_read(1)
    by (simp add: qt_read joinpath_def)
  from a1 a2 b c d show ?thesis by simp
qed

text \<open>
  The claim as stated fails: in the section below \<^verbatim>\<open>nand_directory\<close> is present, but another
  option holds a lone \<^verbatim>\<open>%\<close>, so building the dictionary for the log line raises, and the
  NAND resolver returns the default path instead of the decoded value.
\<close>

theorem nand_not_decoded_counterexample:
  "map_of [(''nand_directory'', ''E:/nand''), (''screenshot_path'', ''50%'')] ''nand_directory''
     = Some ''E:/nand''
   \<and> get_yuzu_nand_path
       (qt_env [(''nand_directory'', ''E:/nand''), (''screenshot_path'', ''50%'')]) qt_world
     = Inr [''D:'', ''Yuzu'', ''user'', ''nand'']"
  using qt_read(1)
  by (simp add: get_yuzu_nand_path_def get_yuzu_data_storage_config_def qt_user_path qt_read
      Let_def joinpath_def)

text \<open>
  C8: for every Data Storage section that holds neither \<^verbatim>\<open>nand_directory\<close> nor
  \<^verbatim>\<open>load_directory\<close>, both resolvers return the default subfolders \<^verbatim>\<open>nand\<close> and \<^verbatim>\<open>load\<close> of
  the user-data path; and whenever reading the file, looking up the section or reading its
  options raises, the exception is swallowed and both return the defaults.
\<close>

theorem defaults_when_keys_absent:
  assumes up: "get_yuzu_user_path e w = Inr user_path"
  shows "(\<forall>sections ds.
            exists (joinpath user_path [''config'', ''qt-config.ini'']) w
              \<and> ConfigParser_read e (absolute e (joinpath user_path [''config'', ''qt-config.ini'']))
                   = Inr sections
              \<and> sections ''Data%20Storage'' = Some ds
              \<and> map_of ds ''nand_directory'' = None
              \<and> map_of ds ''load_directory'' = None \<longrightarrow>
            get_yuzu_nand_path e w = Inr (joinpath user_path [''nand''])
            \<and> get_yuzu_load_path e w = Inr (joinpath user_path [''load'']))
       \<and> (\<forall>x. get_yuzu_data_storage_config e user_path w = Inl x \<longrightarrow>
            get_yuzu_nand_path e w = Inr (joinpath user_path [''nand''])
            \<and> get_yuzu_load_path e w = Inr (joinpath user_path [''load'']))"
proof (intro conjI allI impI; (elim conjE)?)
  fix sections ds
  assume a: "exists (joinpath user_path [''config'', ''qt-config.ini'']) w"
    "ConfigParser_read e (absolute e (joinpath user_path [''config'', ''qt-config.ini''])) = Inr sections"
    "sections ''Data%20Storage'' = Some ds"
    and n: "map_of ds ''nand_directory'' = None" and l: "map_of ds ''load_directory'' = None"
  have both: "get_yuzu_nand_path e w = Inr (joinpath user_path [''nand''])
              \<and> get_yuzu_load_path e w = Inr (joinpath user_path [''load''])"
  proof (cases "dict_items e ds ds")
    case (Inl y)
    with a have "get_yuzu_data_storage_config e user_path w = Inl y"
      by (simp add: get_yuzu_data_storage_config_def Let_def)
    with up show ?thesis
      by (simp add: nand_default_on_failure load_default_on_failure)
  next
    case (Inr d)
    with a have "get_yuzu_data_storage_config e user_path w = Inr (Some ds)"
      by (simp add: get_yuzu_data_storage_config_def Let_def)
    from defaults_of_absent_keys [OF up this n l] show ?thesis by simp
  qed
  from both show "get_yuzu_nand_path e w = Inr (joinpath user_path [''nand''])" ..
  from both show "get_yuzu_load_path e w = Inr (joinpath user_path [''load''])" ..
next
  fix x assume x: "get_yuzu_data_storage_config e user_path w = Inl x"
  show "get_yuzu_nand_path e w = Inr (joinpath user_path [''nand''])"
    by (rule nand_default_on_failure [OF up x])
  show "get_yuzu_load_path e w = Inr (joinpath user_path [''load''])"
    by (rule load_default_on_failure [OF up x])
qed

theorem defaults_when_keys_absent_witness:
  "get_yuzu_nand_path (qt_env [(''screenshot_path'', ''E:/shots'')]) qt_world
     = Inr [''D:'', ''Yuzu'', ''user'', ''nand'']
   \<and> get_yuzu_load_path (qt_env [(''screenshot_path'', ''E:/shots'')]) qt_world
     = Inr [''D:'', ''Yuzu'', ''user'', ''load'']
   \<and> get_yuzu_nand_path (qt_env []) qt_world = Inr [''D:'', ''Yuzu'', ''user'', ''nand'']
   \<and> get_yuzu_load_path (qt_env []) qt_world = Inr [''D:'', ''Yuzu'', ''user'', ''load'']
   \<and> get_yuzu_nand_path broken_qt_env qt_world = Inr [''D:'', ''Yuzu'', ''user'', ''nand'']
   \<and> get_yuzu_load_path broken_qt_env qt_world = Inr [''D:'', ''Yuzu'', ''user'', ''load'']"
proof -
  have a: "get_yuzu_nand_path (qt_env ds) qt_world = Inr [''D:'', ''Yuzu'', ''user'', ''nand'']
         \<and> get_yuzu_load_path (qt_env ds) qt_world = Inr [''D:'', ''Yuzu'', ''user'', ''load'']"
    if "map_of ds ''nand_directory'' = None" "map_of ds ''load_directory'' = None" for ds
    using defaults_when_keys_absent [OF qt_user_path(1), of ds, THEN conjunct1, rule_format,
        of "[''Data%20Storage'' \<mapsto> ds]" ds] qt_read(1) that
    by (simp add: qt_read joinpath_def)
  have b: "get_yuzu_nand_path broken_qt_env qt_world = Inr [''D:'', ''Yuzu'', ''user'', ''nand'']
         \<and> get_yuzu_load_path broken_qt_env qt_world = Inr [''D:'', ''Yuzu'', ''user'', ''load'']"
    using defaults_when_keys_absent [OF qt_user_path(2), THEN conjunct2, rule_format,
        of "Raised ''ParsingError''"] broken_qt_data_storage
    by (simp add: joinpath_def)
  from a [of "[(''screenshot_path'', ''E:/shots'')]"] a [of "[]"] b show ?thesis by simp
qed

subsection \<open>Changing the install path\<close>




lemma update_yuzu_path_total:
  "exists (Path e new_yuzu_path) w \<or> mkdir_error e (Path e new_yuzu_path) (files w) = None \<Longrightarrow>
   \<exists>w'. update_yuzu_path e new_yuzu_path w = Inr w'"
  by (auto simp: update_yuzu_path_def mkdir_parents_def Let_def)


lemma example_paths:
  "Path example_env ''D:/Yuzu'' = [''D:'', ''Yuzu'']"
  "Path example_env ''D:/New/Eden'' = [''D:'', ''New'', ''Eden'']"
  "Path example_env ''D:/Yuzu/eden.exe/sub'' = [''D:'', ''Yuzu'', ''eden.exe'', ''sub'']"
  "path_eq example_env = (\<lambda>p q. p = q)"
  "absolute example_env = (\<lambda>p. p)"
  "str_of example_env = join_path"
  "add_yuzu_history example_env = (\<lambda>c h. h(yuzu_path c \<mapsto> c))"
  "YuzuConfig_default example_env =
     \<lparr>yuzu_path = ''D:/Yuzu'', yuzu_version = None, yuzu_firmware = None, branch = None\<rparr>"
  "mkdir_error example_env =
     (\<lambda>p fs. if prefix [''D:'', ''Yuzu'', ''eden.exe''] p then Some (Raised ''OSError'') else None)"
  by (simp_all add: example_env_def)



subsection \<open>Which errors reach the caller\<close>

text \<open>An exception of the window enumeration ends the poll loop with no version read.\<close>

lemma poll_loop_fail_from:
  assumes k: "k < 30"
      and before: "\<forall>j<k. \<exists>ws. get_all_window_name e j = Inr ws \<and> (\<forall>t \<in> set ws. \<not> recognised t)"
      and at: "get_all_window_name e k = Inl x"
  shows "i \<le> k \<Longrightarrow> poll_loop e i (None, None) = (None, None)"
proof (induction "k - i" arbitrary: i)
  case 0
  then have "i = k" by simp
  with k at show ?case
    by (subst poll_loop.simps) simp
next
  case (Suc d)
  then have lt: "i < k" and d: "d = k - Suc i" and le: "Suc i \<le> k" by simp_all
  from before lt obtain ws' where ws': "get_all_window_name e i = Inr ws'"
      "\<forall>t \<in> set ws'. \<not> recognised t" by blast
  have "poll_loop e i (None, None) = poll_loop e (Suc i) (None, None)"
    using lt k ws' by (subst poll_loop.simps) (simp add: window_loop_none)
  with Suc.hyps(1) [OF d le] show ?case by simp
qed

lemma detect_window_failure:
  assumes exe: "exists (get_yuzu_exe_path e w) w"
      and idle: "find_all_instances e (path_name (get_yuzu_exe_path e w)) = []"
      and launch: "Popen e (absolute e (get_yuzu_exe_path e w)) = None"
      and k: "k < 30"
      and before: "\<forall>j<k. \<exists>ws. get_all_window_name e j = Inr ws \<and> (\<forall>t \<in> set ws. \<not> recognised t)"
      and at: "get_all_window_name e k = Inl x"
  shows "detect_yuzu_version e w =
           Inr (None, dump_config (w\<lparr>yuzu := (yuzu w)\<lparr>yuzu_version := None\<rparr>\<rparr>))"
proof -
  from poll_loop_fail_from [OF k before at, of 0]
  have "poll_loop e 0 (None, None) = (None, None)" by simp
  with exe idle launch show ?thesis
    by (simp add: detect_yuzu_version_def Let_def)
qed

lemma install_eden_download_fails:
  "download_yuzu e target_version ''eden'' w = Inl x \<Longrightarrow> install_eden e target_version w = Inl x"
  by (simp add: install_eden_def Let_def)

lemma install_eden_copy_fails:
  assumes "download_yuzu e target_version ''eden'' w = Inr (pkg, w1)"
      and "unzip_yuzu e pkg (Some (joinpath (Path e (gettempdir e)) [''eden-install''])) w1 = Inr (d, w2)"
      and "copy_back_yuzu_files e (joinpath (Path e (gettempdir e)) [''eden-install''])
             (Path e (yuzu_path (yuzu w))) w2 = Inl x"
  shows "install_eden e target_version w = Inl x"
  using assms by (simp add: install_eden_def Let_def)

lemma install_yuzu_propagates:
  "install_eden e target_version w = Inl x \<Longrightarrow> Some target_version \<noteq> yuzu_version (yuzu w)
     \<Longrightarrow> install_yuzu e target_version ''eden'' w = Inl x"
  by (simp add: install_yuzu_def)

text \<open>
  C3 (as amended): unsupported branch, version not found and no matching download asset
  are raised by \<open>download_yuzu\<close>; a copy failure is raised by \<open>copy_back_yuzu_files\<close>,
  wrapped in \<^verbatim>\<open>FailToCopyFiles\<close>. When the requested version is not the recorded one,
  \<open>install_yuzu\<close> on branch eden raises whatever \<open>install_eden\<close> raises, in particular
  whatever \<open>download_yuzu\<close> raises and the copy failure. A missing executable is raised by
  \<open>start_yuzu\<close>. In \<open>detect_yuzu_version\<close> neither a missing executable nor a running
  emulator (busy) is raised: the function returns \<^verbatim>\<open>None\<close>, after clearing and persisting
  the recorded version in the first case and without any change in the second. An exception
  of the window enumeration is swallowed and detection ends as when no window was found; an
  exception while reading the Qt config is swallowed and the default NAND and load paths
  are returned.
\<close>

theorem error_taxonomy:
  "(br \<noteq> ''eden'' \<longrightarrow> download_yuzu e target_version br w = Inl unsupported_branch)
   \<and> (get_yuzu_release_info_by_version e target_version ''eden'' = Inr release
        \<and> \<not> truthy (tag_name release) \<longrightarrow>
      download_yuzu e target_version ''eden'' w
        = Inl (VersionNotFoundException target_version ''eden'' ''yuzu''))
   \<and> (get_yuzu_release_info_by_version e target_version ''eden'' = Inr release
        \<and> truthy (tag_name release) \<and> find asset_matches (assets release) = None \<longrightarrow>
      download_yuzu e target_version ''eden'' w = Inl no_download_url)
   \<and> (remove_loop (glob e tmp_dir ''yuzu-windows-msvc-source-*.tar.xz'' (files w)) (files w) = Inr fs
        \<and> copytree e tmp_dir yuzu_dir fs = Inl x \<longrightarrow>
      copy_back_yuzu_files e tmp_dir yuzu_dir w = Inl (FailToCopyFiles x))
   \<and> (install_eden e target_version w = Inl x
        \<and> Some target_version \<noteq> yuzu_version (yuzu w) \<longrightarrow>
      install_yuzu e target_version ''eden'' w = Inl x)
   \<and> (download_yuzu e target_version ''eden'' w = Inl x
        \<and> Some target_version \<noteq> yuzu_version (yuzu w) \<longrightarrow>
      install_yuzu e target_version ''eden'' w = Inl x)
   \<and> (download_yuzu e target_version ''eden'' w = Inr (pkg, w1)
        \<and> unzip_yuzu e pkg (Some (joinpath (Path e (gettempdir e)) [''eden-install''])) w1
            = Inr (d, w2)
        \<and> copy_back_yuzu_files e (joinpath (Path e (gettempdir e)) [''eden-install''])
             (Path e (yuzu_path (yuzu w))) w2 = Inl x
        \<and> Some target_version \<noteq> yuzu_version (yuzu w) \<longrightarrow>
      install_yuzu e target_version ''eden'' w = Inl x)
   \<and> (\<not> exists (get_yuzu_exe_path e w) w \<longrightarrow>
      start_yuzu e w
        = Inl (IgnoredException (''yuzu not exist in ['' @ str_of e (get_yuzu_exe_path e w) @ '']''))
      \<and> detect_yuzu_version e w
        = Inr (None, dump_config (w\<lparr>yuzu := (yuzu w)\<lparr>yuzu_version := None\<rparr>\<rparr>)))
   \<and> (exists (get_yuzu_exe_path e w) w
        \<and> find_all_instances e (path_name (get_yuzu_exe_path e w)) \<noteq> [] \<longrightarrow>
      detect_yuzu_version e w = Inr (None, w))
   \<and> (exists (get_yuzu_exe_path e w) w
        \<and> find_all_instances e (path_name (get_yuzu_exe_path e w)) = []
        \<and> Popen e (absolute e (get_yuzu_exe_path e w)) = None
        \<and> k < 30
        \<and> (\<forall>j<k. \<exists>ws. get_all_window_name e j = Inr ws \<and> (\<forall>t \<in> set ws. \<not> recognised t))
        \<and> get_all_window_name e k = Inl x \<longrightarrow>
      detect_yuzu_version e w
        = Inr (None, dump_config (w\<lparr>yuzu := (yuzu w)\<lparr>yuzu_version := None\<rparr>\<rparr>)))
   \<and> (get_yuzu_user_path e w = Inr user_path
        \<and> get_yuzu_data_storage_config e user_path w = Inl x \<longrightarrow>
      get_yuzu_nand_path e w = Inr (joinpath user_path [''nand''])
      \<and> get_yuzu_load_path e w = Inr (joinpath user_path [''load'']))"
proof (intro conjI impI; (elim conjE)?)
  show "br \<noteq> ''eden'' \<Longrightarrow> download_yuzu e target_version br w = Inl unsupported_branch"
    by (simp add: download_yuzu_def)
  show "get_yuzu_release_info_by_version e target_version ''eden'' = Inr release \<Longrightarrow>
        \<not> truthy (tag_name release) \<Longrightarrow>
        download_yuzu e target_version ''eden'' w
          = Inl (VersionNotFoundException target_version ''eden'' ''yuzu'')"
    by (simp add: download_yuzu_def)
  show "get_yuzu_release_info_by_version e target_version ''eden'' = Inr release \<Longrightarrow>
        truthy (tag_name release) \<Longrightarrow> find asset_matches (assets release) = None \<Longrightarrow>
        download_yuzu e target_version ''eden'' w = Inl no_download_url"
    by (simp add: download_yuzu_def asset_loop_find)
  show "remove_loop (glob e tmp_dir ''yuzu-windows-msvc-source-*.tar.xz'' (files w)) (files w) = Inr fs \<Longrightarrow>
        copytree e tmp_dir yuzu_dir fs = Inl x \<Longrightarrow>
        copy_back_yuzu_files e tmp_dir yuzu_dir w = Inl (FailToCopyFiles x)"
    by (simp add: copy_back_yuzu_files_def)
  show "install_eden e target_version w = Inl x \<Longrightarrow>
        Some target_version \<noteq> yuzu_version (yuzu w) \<Longrightarrow>
        install_yuzu e target_version ''eden'' w = Inl x"
    by (rule install_yuzu_propagates)
  show "download_yuzu e target_version ''eden'' w = Inl x \<Longrightarrow>
        Some target_version \<noteq> yuzu_version (yuzu w) \<Longrightarrow>
        install_yuzu e target_version ''eden'' w = Inl x"
    by (simp add: install_yuzu_propagates install_eden_download_fails)
  show "download_yuzu e target_version ''eden'' w = Inr (pkg, w1) \<Longrightarrow>
        unzip_yuzu e pkg (Some (joinpath (Path e (gettempdir e)) [''eden-install''])) w1
            = Inr (d, w2) \<Longrightarrow>
        copy_back_yuzu_files e (joinpath (Path e (gettempdir e)) [''eden-install''])
             (Path e (yuzu_path (yuzu w))) w2 = Inl x \<Longrightarrow>
        Some target_version \<noteq> yuzu_version (yuzu w) \<Longrightarrow>
        install_yuzu e target_version ''eden'' w = Inl x"
    by (simp add: install_yuzu_propagates install_eden_copy_fails)
  show "\<not> exists (get_yuzu_exe_path e w) w \<Longrightarrow>
        start_yuzu e w
          = Inl (IgnoredException (''yuzu not exist in ['' @ str_of e (get_yuzu_exe_path e w) @ '']''))"
    by (simp add: start_yuzu_def Let_def)
  show "\<not> exists (get_yuzu_exe_path e w) w \<Longrightarrow>
        detect_yuzu_version e w
          = Inr (None, dump_config (w\<lparr>yuzu := (yuzu w)\<lparr>yuzu_version := None\<rparr>\<rparr>))"
    by (simp add: detect_yuzu_version_def Let_def)
  show "exists (get_yuzu_exe_path e w) w \<Longrightarrow>
        find_all_instances e (path_name (get_yuzu_exe_path e w)) \<noteq> [] \<Longrightarrow>
        detect_yuzu_version e w = Inr (None, w)"
    by (simp add: detect_yuzu_version_def Let_def)
  show "exists (get_yuzu_exe_path e w) w \<Longrightarrow>
        find_all_instances e (path_name (get_yuzu_exe_path e w)) = [] \<Longrightarrow>
        Popen e (absolute e (get_yuzu_exe_path e w)) = None \<Longrightarrow>
        k < 30 \<Longrightarrow>
        \<forall>j<k. \<exists>ws. get_all_window_name e j = Inr ws \<and> (\<forall>t \<in> set ws. \<not> recognised t) \<Longrightarrow>
        get_all_window_name e k = Inl x \<Longrightarrow>
        detect_yuzu_version e w
          = Inr (None, dump_config (w\<lparr>yuzu := (yuzu w)\<lparr>yuzu_version := None\<rparr>\<rparr>))"
    by (rule detect_window_failure)
  show "get_yuzu_user_path e w = Inr user_path \<Longrightarrow>
        get_yuzu_data_storage_config e user_path w = Inl x \<Longrightarrow>
        get_yuzu_nand_path e w = Inr (joinpath user_path [''nand''])"
    by (simp add: get_yuzu_nand_path_def Let_def)
  show "get_yuzu_user_path e w = Inr user_path \<Longrightarrow>
        get_yuzu_data_storage_config e user_path w = Inl x \<Longrightarrow>
        get_yuzu_load_path e w = Inr (joinpath user_path [''load''])"
    by (simp add: get_yuzu_load_path_def Let_def)
qed

lemma example_exe_path:
  "get_yuzu_exe_path example_env example_world = [''D:'', ''Yuzu'', ''eden.exe'']"
  "get_yuzu_exe_path busy_env example_world = [''D:'', ''Yuzu'', ''eden.exe'']"
  "get_yuzu_exe_path window_fail_env example_world = [''D:'', ''Yuzu'', ''eden.exe'']"
  "get_yuzu_exe_path example_env (example_world\<lparr>files := {}\<rparr>) = [''D:'', ''Yuzu'', ''yuzu.exe'']"
  by (simp_all add: get_yuzu_exe_path_def busy_env_def window_fail_env_def example_env_def
      example_world_def detect_exe_list_def exists_def joinpath_def)

theorem error_taxonomy_witness:
  "download_yuzu example_env ''1.2.3'' ''ea'' example_world = Inl unsupported_branch
   \<and> download_yuzu example_env ''9.9.9'' ''eden'' example_world
       = Inl (VersionNotFoundException ''9.9.9'' ''eden'' ''yuzu'')
   \<and> download_yuzu (assets_env [\<lparr>name = ''README.md'', download_url = ''https://example.org/readme''\<rparr>])
        ''1.2.3'' ''eden'' example_world = Inl no_download_url
   \<and> copy_back_yuzu_files copy_fail_env [''T:'', ''tmp'', ''eden-install''] [''D:'', ''Yuzu'']
        example_world = Inl (FailToCopyFiles (Raised ''PermissionError''))
   \<and> install_yuzu example_env ''9.9.9'' ''eden'' example_world
       = Inl (VersionNotFoundException ''9.9.9'' ''eden'' ''yuzu'')
   \<and> install_yuzu (assets_env [\<lparr>name = ''README.md'', download_url = ''https://example.org/readme''\<rparr>])
        ''1.2.3'' ''eden'' example_world = Inl no_download_url
   \<and> install_yuzu copy_fail_env ''1.2.3'' ''eden'' example_world
       = Inl (FailToCopyFiles (Raised ''PermissionError''))
   \<and> start_yuzu example_env (example_world\<lparr>files := {}\<rparr>)
       = Inl (IgnoredException ''yuzu not exist in [D:/Yuzu/yuzu.exe]'')
   \<and> detect_yuzu_version example_env (example_world\<lparr>files := {}\<rparr>)
       = Inr (None, dump_config (example_world\<lparr>files := {},
                yuzu := (yuzu example_world)\<lparr>yuzu_version := None\<rparr>\<rparr>))
   \<and> detect_yuzu_version busy_env example_world = Inr (None, example_world)
   \<and> detect_yuzu_version window_fail_env example_world
       = Inr (None, dump_config (example_world\<lparr>yuzu := (yuzu example_world)\<lparr>yuzu_version := None\<rparr>\<rparr>))
   \<and> get_yuzu_nand_path broken_qt_env qt_world = Inr [''D:'', ''Yuzu'', ''user'', ''nand'']
   \<and> get_yuzu_load_path broken_qt_env qt_world = Inr [''D:'', ''Yuzu'', ''user'', ''load'']"
proof -
  let ?readme = "[\<lparr>name = ''README.md'', download_url = ''https://example.org/readme''\<rparr>]"
  have rec: "Some v \<noteq> yuzu_version (yuzu example_world)" if "v \<noteq> ''1.0.0''" for v
    using that by (auto simp: example_world_def)
  have w1: "download_yuzu example_env ''1.2.3'' ''ea'' example_world = Inl unsupported_branch"
    using error_taxonomy [of "''ea''" example_env "''1.2.3''" example_world,
        THEN conjunct1] by simp
  have w2: "download_yuzu example_env ''9.9.9'' ''eden'' example_world
       = Inl (VersionNotFoundException ''9.9.9'' ''eden'' ''yuzu'')"
    using error_taxonomy [where e = example_env and target_version = "''9.9.9''" and w = example_world
        and release = "\<lparr>tag_name = None, assets = []\<rparr>",
        THEN conjunct2, THEN conjunct1]
    by (simp add: example_env_def)
  have w3: "download_yuzu (assets_env ?readme) ''1.2.3'' ''eden'' example_world = Inl no_download_url"
    using error_taxonomy [where e = "assets_env ?readme" and target_version = "''1.2.3''" and w = example_world
        and release = "\<lparr>tag_name = Some ''v1.2.3'', assets = ?readme\<rparr>",
        THEN conjunct2, THEN conjunct2, THEN conjunct1]
    by (simp add: assets_env_release asset_matches_def startswith_def endswith_def)
  have w4: "copy_back_yuzu_files copy_fail_env [''T:'', ''tmp'', ''eden-install''] [''D:'', ''Yuzu'']
        example_world = Inl (FailToCopyFiles (Raised ''PermissionError''))"
    using error_taxonomy [where e = copy_fail_env and w = example_world
        and tmp_dir = "[''T:'', ''tmp'', ''eden-install'']" and yuzu_dir = "[''D:'', ''Yuzu'']"
        and fs = "files example_world" and x = "Raised ''PermissionError''",
        THEN conjunct2, THEN conjunct2, THEN conjunct2, THEN conjunct1]
    by (simp add: copy_fail_env_def example_env_def)
  have w5: "install_yuzu example_env ''9.9.9'' ''eden'' example_world
       = Inl (VersionNotFoundException ''9.9.9'' ''eden'' ''yuzu'')"
    using error_taxonomy [where e = example_env and target_version = "''9.9.9''" and w = example_world
        and x = "VersionNotFoundException ''9.9.9'' ''eden'' ''yuzu''",
        THEN conjunct2, THEN conjunct2, THEN conjunct2, THEN conjunct2, THEN conjunct2, THEN conjunct1] w2 rec [of "''9.9.9''"]
    by simp
  have w6: "install_yuzu (assets_env ?readme) ''1.2.3'' ''eden'' example_world = Inl no_download_url"
    using error_taxonomy [where e = "assets_env ?readme" and target_version = "''1.2.3''" and w = example_world
        and x = no_download_url,
        THEN conjunct2, THEN conjunct2, THEN conjunct2, THEN conjunct2, THEN conjunct2, THEN conjunct1] w3 rec [of "''1.2.3''"]
    by simp
  let ?w1 = "example_world\<lparr>files := insert [''T:'', ''eden.zip''] (files example_world)\<rparr>"
  let ?tmp = "[''T:'', ''tmp'', ''eden-install'']"
  let ?w2 = "?w1\<lparr>files := insert (?tmp @ [''eden.exe'']) (insert ?tmp (files ?w1))\<rparr>"
  have env: "Path copy_fail_env = split_path []" "gettempdir copy_fail_env = ''T:/tmp''"
    by (simp_all add: copy_fail_env_def example_env_def)
  have dl: "download_yuzu copy_fail_env ''1.2.3'' ''eden'' example_world = Inr ([''T:'', ''eden.zip''], ?w1)"
    by (simp add: download_yuzu_def copy_fail_env_def example_env_def example_release_def
        startswith_def endswith_def)
  have uz: "unzip_yuzu copy_fail_env [''T:'', ''eden.zip''] (Some ?tmp) ?w1 = Inr (?tmp, ?w2)"
    by (simp add: unzip_yuzu_def copy_fail_env_def example_env_def Let_def)
  have cb: "copy_back_yuzu_files copy_fail_env ?tmp [''D:'', ''Yuzu''] ?w2
       = Inl (FailToCopyFiles (Raised ''PermissionError''))"
    by (simp add: copy_back_yuzu_files_def copy_fail_env_def example_env_def)
  have w7: "install_yuzu copy_fail_env ''1.2.3'' ''eden'' example_world
       = Inl (FailToCopyFiles (Raised ''PermissionError''))"
    using error_taxonomy [where e = copy_fail_env and target_version = "''1.2.3''" and w = example_world
        and pkg = "[''T:'', ''eden.zip'']" and ?w1.0 = ?w1 and d = ?tmp and ?w2.0 = ?w2
        and x = "FailToCopyFiles (Raised ''PermissionError'')",
        THEN conjunct2, THEN conjunct2, THEN conjunct2, THEN conjunct2, THEN conjunct2, THEN conjunct2, THEN conjunct1] dl uz cb rec [of "''1.2.3''"]
    by (simp add: env joinpath_def, simp add: example_world_def)
  have w8: "start_yuzu example_env (example_world\<lparr>files := {}\<rparr>)
       = Inl (IgnoredException ''yuzu not exist in [D:/Yuzu/yuzu.exe]'')
     \<and> detect_yuzu_version example_env (example_world\<lparr>files := {}\<rparr>)
       = Inr (None, dump_config (example_world\<lparr>files := {},
                yuzu := (yuzu example_world)\<lparr>yuzu_version := None\<rparr>\<rparr>))"
    using error_taxonomy [where e = example_env and w = "example_world\<lparr>files := {}\<rparr>",
        THEN conjunct2, THEN conjunct2, THEN conjunct2, THEN conjunct2, THEN conjunct2, THEN conjunct2, THEN conjunct2, THEN conjunct1]
    by (simp add: example_exe_path exists_def, simp add: example_env_def)
  have w9: "detect_yuzu_version busy_env example_world = Inr (None, example_world)"
    using error_taxonomy [where e = busy_env and w = example_world,
        THEN conjunct2, THEN conjunct2, THEN conjunct2, THEN conjunct2, THEN conjunct2, THEN conjunct2, THEN conjunct2, THEN conjunct2, THEN conjunct1]
    by (simp add: example_exe_path exists_def path_name_def, simp add: busy_env_def example_world_def)
  have w10: "detect_yuzu_version window_fail_env example_world
       = Inr (None, dump_config (example_world\<lparr>yuzu := (yuzu example_world)\<lparr>yuzu_version := None\<rparr>\<rparr>))"
    using error_taxonomy [where e = window_fail_env and w = example_world and k = 0
        and x = "Raised ''OSError''",
        THEN conjunct2, THEN conjunct2, THEN conjunct2, THEN conjunct2, THEN conjunct2, THEN conjunct2, THEN conjunct2, THEN conjunct2, THEN conjunct2, THEN conjunct1]
    by (simp add: example_exe_path exists_def path_name_def,
        simp add: window_fail_env_def example_env_def example_world_def)
  have w11: "get_yuzu_nand_path broken_qt_env qt_world = Inr [''D:'', ''Yuzu'', ''user'', ''nand'']
     \<and> get_yuzu_load_path broken_qt_env qt_world = Inr [''D:'', ''Yuzu'', ''user'', ''load'']"
    using error_taxonomy [where e = broken_qt_env and w = qt_world
        and user_path = "[''D:'', ''Yuzu'', ''user'']" and x = "Raised ''ParsingError''",
        THEN conjunct2, THEN conjunct2, THEN conjunct2, THEN conjunct2, THEN conjunct2, THEN conjunct2, THEN conjunct2, THEN conjunct2, THEN conjunct2, THEN conjunct2]
    by (simp add: qt_user_path broken_qt_data_storage joinpath_def)
  from w1 w2 w3 w4 w5 w6 w7 w8 w9 w10 w11 show ?thesis by simp
qed

text \<open>
  The claim as stated fails for busy: with the executable present and an emulator process
  running, \<open>detect_yuzu_version\<close> returns \<^verbatim>\<open>None\<close> normally and leaves the state as it is;
  nothing is raised.
\<close>

theorem busy_not_raised_counterexample:
  "exists (get_yuzu_exe_path busy_env example_world) example_world
   \<and> find_all_instances busy_env (path_name (get_yuzu_exe_path busy_env example_world)) = [4242]
   \<and> detect_yuzu_version busy_env example_world = Inr (None, example_world)"
  by (simp add: detect_yuzu_version_def example_exe_path path_name_def exists_def Let_def,
      simp add: busy_env_def example_world_def)

subsection \<open>The version and branch fields\<close>

text \<open>Download, unpacking and copying leave \<^verbatim>\<open>config.yuzu\<close> alone; the poll loop never holds a
  version without a branch.\<close>

lemma yuzu_download_yuzu:
  "download_yuzu e target_version br w = Inr (p, w1) \<Longrightarrow> yuzu w1 = yuzu w"
  by (auto simp: download_yuzu_def split: if_splits sum.splits option.splits list.splits)

lemma yuzu_unzip_yuzu:
  "unzip_yuzu e pkg target_dir w = Inr (d, w1) \<Longrightarrow> yuzu w1 = yuzu w"
  by (auto simp: unzip_yuzu_def Let_def split: sum.splits)

lemma yuzu_copy_back_yuzu_files:
  "copy_back_yuzu_files e tmp_dir yuzu_dir w = Inr w1 \<Longrightarrow> yuzu w1 = yuzu w"
  by (auto simp: copy_back_yuzu_files_def split: sum.splits)

lemma yuzu_install_eden:
  assumes "install_eden e target_version w = Inr w1"
  shows "yuzu w1 = yuzu w"
proof -
  from assms obtain pkg wa d wb wc where
    a: "download_yuzu e target_version ''eden'' w = Inr (pkg, wa)" and
    b: "unzip_yuzu e pkg (Some (joinpath (Path e (gettempdir e)) [''eden-install''])) wa = Inr (d, wb)" and
    c: "copy_back_yuzu_files e (joinpath (Path e (gettempdir e)) [''eden-install''])
          (Path e (yuzu_path (yuzu w))) wb = Inr wc" and
    d: "yuzu w1 = yuzu wc"
    by (auto simp: install_eden_def Let_def split: sum.splits prod.splits if_splits)
  from yuzu_download_yuzu [OF a] yuzu_unzip_yuzu [OF b] yuzu_copy_back_yuzu_files [OF c] d
  show ?thesis by simp
qed

lemma install_yuzu_records:
  assumes "install_yuzu e target_version br w = Inr w'"
      and "yuzu_version (yuzu w) \<noteq> Some target_version"
  shows "yuzu w' = (yuzu w)\<lparr>yuzu_version := Some target_version, branch := Some br\<rparr>
         \<and> dumped w' = Some (yuzu w') \<and> br = ''eden''"
proof -
  from assms obtain w1 where e1: "install_eden e target_version w = Inr w1" and br: "br = ''eden''"
    by (auto simp: install_yuzu_def split: if_splits sum.splits)
  from yuzu_install_eden [OF e1] have y: "yuzu w1 = yuzu w" .
  from assms e1 br y show ?thesis
    by (auto simp: install_yuzu_def Let_def dump_config_def split: if_splits sum.splits)
qed

lemma window_loop_inv:
  "(fst vb \<noteq> None \<longrightarrow> snd vb \<noteq> None) \<Longrightarrow>
     fst (window_loop ws vb) \<noteq> None \<longrightarrow> snd (window_loop ws vb) \<noteq> None"
  by (induction ws) auto

lemma poll_loop_inv:
  "(fst vb \<noteq> None \<longrightarrow> snd vb \<noteq> None) \<Longrightarrow>
     fst (poll_loop e k vb) \<noteq> None \<longrightarrow> snd (poll_loop e k vb) \<noteq> None"
proof (induction e k vb rule: poll_loop.induct)
  case (1 e try_cnt vb)
  show ?case
  proof (cases "try_cnt < 30 \<and> \<not> truthy (fst vb)")
    case False
    then show ?thesis using "1.prems" by (subst (1 2) poll_loop.simps) auto
  next
    case True
    show ?thesis
    proof (cases "get_all_window_name e try_cnt")
      case (Inl x)
      with True "1.prems" show ?thesis by (subst (1 2) poll_loop.simps) auto
    next
      case (Inr ws)
      from "1.IH" [OF True Inr window_loop_inv [OF "1.prems"]] True Inr
      show ?thesis by (subst (1 2) poll_loop.simps) simp
    qed
  qed
qed

lemma detect_records:
  assumes "detect_yuzu_version e w = Inr (r, w')"
  shows "if truthy r
         then yuzu_version (yuzu w') = r \<and> branch (yuzu w') \<noteq> None
         else branch (yuzu w') = branch (yuzu w)
              \<and> (w' = w \<or> (yuzu_version (yuzu w') = r \<and> dumped w' = Some (yuzu w')))"
proof -
  have inv: "fst (poll_loop e 0 (None, None)) \<noteq> None \<longrightarrow> snd (poll_loop e 0 (None, None)) \<noteq> None"
    by (rule poll_loop_inv) simp
  have t: "truthy v \<Longrightarrow> v \<noteq> None" for v by (cases v) auto
  from assms inv show ?thesis
    by (auto simp: detect_yuzu_version_def Let_def dump_config_def dest: t
        split: if_splits option.splits)
qed

lemma firmware_keeps_version_branch:
  assumes "install_firmware_to_yuzu e firmware_version w = Inr w'"
  shows "yuzu_version (yuzu w') = yuzu_version (yuzu w) \<and> branch (yuzu w') = branch (yuzu w)"
  using assms
  by (auto simp: install_firmware_to_yuzu_def Let_def dump_config_def
      split: if_splits sum.splits prod.splits)

lemma update_yuzu_path_config:
  assumes "update_yuzu_path e new_yuzu_path w = Inr w4"
  shows "yuzu w4 =
        (if path_eq e (absolute e (Path e new_yuzu_path)) (absolute e (Path e (yuzu_path (yuzu w))))
         then yuzu w
         else (case add_yuzu_history e (yuzu w) (yuzu_history w)
                      (str_of e (absolute e (Path e new_yuzu_path))) of
                 Some c \<Rightarrow> c
               | None \<Rightarrow> YuzuConfig_default e)
              \<lparr>yuzu_path := str_of e (absolute e (Path e new_yuzu_path))\<rparr>)"
proof (cases "if \<not> exists (Path e new_yuzu_path) w
              then mkdir_parents e (Path e new_yuzu_path) (files w) else Inr (files w)")
  case (Inl x)
  with assms show ?thesis
    by (simp add: update_yuzu_path_def Let_def)
next
  case (Inr fs)
  show ?thesis
  proof (cases "path_eq e (absolute e (Path e new_yuzu_path)) (absolute e (Path e (yuzu_path (yuzu w))))")
    case True
    with assms Inr show ?thesis
      by (auto simp: update_yuzu_path_def Let_def)
  next
    case False
    with assms Inr show ?thesis
      by (auto simp: update_yuzu_path_def Let_def dump_config_def split: option.splits)
  qed
qed

text \<open>
  C2 (as amended): an install that is carried out and returns sets \<open>yuzu_version\<close> and
  \<open>branch\<close> to the requested version and branch. A version detection that returns a
  non-empty version sets \<open>yuzu_version\<close> to it and \<open>branch\<close> to a value. A version
  detection that returns no version leaves \<open>branch\<close> as it was, and either changes nothing
  (an instance is running) or writes and persists the empty result as \<open>yuzu_version\<close>
  (executable missing, no window recognised, enumeration failed). A firmware install leaves
  both fields as they were. A path update that returns leaves the configuration as it was
  when the paths are equal, and otherwise takes it, apart from \<open>yuzu_path\<close>, from the
  history entry for the new path or, when there is none, from the default configuration.
\<close>

theorem version_branch_fields:
  "(install_yuzu e target_version br w = Inr w1
      \<and> yuzu_version (yuzu w) \<noteq> Some target_version \<longrightarrow>
    yuzu_version (yuzu w1) = Some target_version \<and> branch (yuzu w1) = Some br)
   \<and> (detect_yuzu_version e w = Inr (r, w2) \<longrightarrow>
        (if truthy r
         then yuzu_version (yuzu w2) = r \<and> branch (yuzu w2) \<noteq> None
         else branch (yuzu w2) = branch (yuzu w)
              \<and> (w2 = w \<or> (yuzu_version (yuzu w2) = r \<and> dumped w2 = Some (yuzu w2)))))
   \<and> (install_firmware_to_yuzu e firmware_version w = Inr w3 \<longrightarrow>
        yuzu_version (yuzu w3) = yuzu_version (yuzu w) \<and> branch (yuzu w3) = branch (yuzu w))
   \<and> (\<forall>w4. update_yuzu_path e new_yuzu_path w = Inr w4 \<longrightarrow>
      yuzu w4 =
        (if path_eq e (absolute e (Path e new_yuzu_path)) (absolute e (Path e (yuzu_path (yuzu w))))
         then yuzu w
         else (case add_yuzu_history e (yuzu w) (yuzu_history w)
                      (str_of e (absolute e (Path e new_yuzu_path))) of
                 Some c \<Rightarrow> c
               | None \<Rightarrow> YuzuConfig_default e)
              \<lparr>yuzu_path := str_of e (absolute e (Path e new_yuzu_path))\<rparr>))"
proof (intro conjI impI; (elim conjE)?)
  show "install_yuzu e target_version br w = Inr w1 \<Longrightarrow>
        yuzu_version (yuzu w) \<noteq> Some target_version \<Longrightarrow>
        yuzu_version (yuzu w1) = Some target_version"
    using install_yuzu_records [of e target_version br w w1] by simp
  show "install_yuzu e target_version br w = Inr w1 \<Longrightarrow>
        yuzu_version (yuzu w) \<noteq> Some target_version \<Longrightarrow>
        branch (yuzu w1) = Some br"
    using install_yuzu_records [of e target_version br w w1] by simp
  show "detect_yuzu_version e w = Inr (r, w2) \<Longrightarrow>
        (if truthy r
         then yuzu_version (yuzu w2) = r \<and> branch (yuzu w2) \<noteq> None
         else branch (yuzu w2) = branch (yuzu w)
              \<and> (w2 = w \<or> (yuzu_version (yuzu w2) = r \<and> dumped w2 = Some (yuzu w2))))"
    by (rule detect_records)
  show "install_firmware_to_yuzu e firmware_version w = Inr w3 \<Longrightarrow>
        yuzu_version (yuzu w3) = yuzu_version (yuzu w)"
    using firmware_keeps_version_branch [of e firmware_version w w3] by simp
  show "install_firmware_to_yuzu e firmware_version w = Inr w3 \<Longrightarrow>
        branch (yuzu w3) = branch (yuzu w)"
    using firmware_keeps_version_branch [of e firmware_version w w3] by simp
  show "\<forall>w4. update_yuzu_path e new_yuzu_path w = Inr w4 \<longrightarrow>
      yuzu w4 =
        (if path_eq e (absolute e (Path e new_yuzu_path)) (absolute e (Path e (yuzu_path (yuzu w))))
         then yuzu w
         else (case add_yuzu_history e (yuzu w) (yuzu_history w)
                      (str_of e (absolute e (Path e new_yuzu_path))) of
                 Some c \<Rightarrow> c
               | None \<Rightarrow> YuzuConfig_default e)
              \<lparr>yuzu_path := str_of e (absolute e (Path e new_yuzu_path))\<rparr>)"
    by (intro allI impI) (rule update_yuzu_path_config)
qed

lemma example_install_returns:
  "\<exists>w1. install_yuzu example_env ''1.2.3'' ''eden'' example_world = Inr w1"
  by (simp add: install_yuzu_def install_eden_def download_yuzu_def unzip_yuzu_def
      copy_back_yuzu_files_def mkdir_parents_def os_remove_def example_env_def
      example_release_def example_world_def startswith_def endswith_def joinpath_def Let_def)

lemma example_firmware_returns:
  "\<exists>w3. install_firmware_to_yuzu example_env (Some ''18.0.0'') example_world = Inr w3"
  by (simp add: install_firmware_to_yuzu_def get_yuzu_nand_path_def get_yuzu_user_path_def
      get_yuzu_data_storage_config_def exists_def example_env_def example_world_def
      joinpath_def Let_def)

lemma example_detect_returns:
  "\<exists>w2. detect_yuzu_version example_env example_world = Inr (Some ''1.2.3'', w2)"
proof -
  have "poll_loop example_env 0 (None, None) = (Some ''1.2.3'', Some ''eden'')"
    by (simp add: poll_loop.simps [of _ 0] poll_loop_stop example_env_def startswith_def)
  then show ?thesis
    by (simp add: detect_yuzu_version_def Let_def example_exe_path exists_def path_name_def,
        simp add: example_env_def example_world_def Let_def)
qed

lemma example_detect_missing:
  "detect_yuzu_version example_env (example_world\<lparr>files := {}\<rparr>)
     = Inr (None, dump_config (example_world\<lparr>files := {},
              yuzu := \<lparr>yuzu_path = ''D:/Yuzu'', yuzu_version = None, yuzu_firmware = None,
                       branch = Some ''eden''\<rparr>\<rparr>))"
  by (simp add: detect_yuzu_version_def Let_def example_exe_path exists_def,
      simp add: example_world_def)

lemma example_update_returns:
  "\<exists>w4. update_yuzu_path example_env ''D:/New/Eden'' example_world = Inr w4"
  "\<exists>w4. update_yuzu_path example_env ''D:/Yuzu'' example_world = Inr w4"
  by (rule update_yuzu_path_total, simp add: example_paths)+

theorem version_branch_fields_witness:
  "(case install_yuzu example_env ''1.2.3'' ''eden'' example_world of
      Inl x \<Rightarrow> False
    | Inr w1 \<Rightarrow> yuzu_version (yuzu w1) = Some ''1.2.3'' \<and> branch (yuzu w1) = Some ''eden'')
   \<and> (case detect_yuzu_version example_env example_world of
        Inl x \<Rightarrow> False
      | Inr (r, w2) \<Rightarrow> r = Some ''1.2.3'' \<and> yuzu_version (yuzu w2) = Some ''1.2.3''
                        \<and> branch (yuzu w2) \<noteq> None)
   \<and> (case detect_yuzu_version example_env (example_world\<lparr>files := {}\<rparr>) of
        Inl x \<Rightarrow> False
      | Inr (r, w2) \<Rightarrow> r = None \<and> yuzu_version (yuzu w2) = None
                        \<and> branch (yuzu w2) = Some ''eden'')
   \<and> (case install_firmware_to_yuzu example_env (Some ''18.0.0'') example_world of
        Inl x \<Rightarrow> False
      | Inr w3 \<Rightarrow> yuzu_version (yuzu w3) = Some ''1.0.0'' \<and> branch (yuzu w3) = Some ''eden'')
   \<and> (case update_yuzu_path example_env ''D:/New/Eden'' example_world of
        Inl x \<Rightarrow> False
      | Inr w4 \<Rightarrow> yuzu w4 = \<lparr>yuzu_path = ''D:/New/Eden'', yuzu_version = None,
                              yuzu_firmware = None, branch = None\<rparr>)
   \<and> (case update_yuzu_path example_env ''D:/Yuzu'' example_world of
        Inl x \<Rightarrow> False
      | Inr w4 \<Rightarrow> yuzu w4 = yuzu example_world)"
proof -
  from example_install_returns obtain w1 where
    i: "install_yuzu example_env ''1.2.3'' ''eden'' example_world = Inr w1" by blast
  from example_detect_returns obtain w2 where
    d: "detect_yuzu_version example_env example_world = Inr (Some ''1.2.3'', w2)" by blast
  from example_firmware_returns obtain w3 where
    f: "install_firmware_to_yuzu example_env (Some ''18.0.0'') example_world = Inr w3" by blast
  from example_update_returns(1) obtain w4 where
    n: "update_yuzu_path example_env ''D:/New/Eden'' example_world = Inr w4" by blast
  from example_update_returns(2) obtain w5 where
    s: "update_yuzu_path example_env ''D:/Yuzu'' example_world = Inr w5" by blast
  have a: "yuzu_version (yuzu w1) = Some ''1.2.3'' \<and> branch (yuzu w1) = Some ''eden''"
    using version_branch_fields [where e = example_env and w = example_world
        and target_version = "''1.2.3''" and br = "''eden''" and ?w1.0 = w1, THEN conjunct1] i
    by (simp add: example_world_def)
  have b: "yuzu_version (yuzu w2) = Some ''1.2.3'' \<and> branch (yuzu w2) \<noteq> None"
    using version_branch_fields [where e = example_env and w = example_world
        and r = "Some ''1.2.3''" and ?w2.0 = w2, THEN conjunct2, THEN conjunct1] d
    by simp
  have c: "yuzu_version (yuzu w3) = Some ''1.0.0'' \<and> branch (yuzu w3) = Some ''eden''"
    using version_branch_fields [where e = example_env and w = example_world
        and firmware_version = "Some ''18.0.0''" and ?w3.0 = w3,
        THEN conjunct2, THEN conjunct2, THEN conjunct1] f
    by (simp add: example_world_def)
  have m: "branch (yuzu (dump_config (example_world\<lparr>files := {},
              yuzu := \<lparr>yuzu_path = ''D:/Yuzu'', yuzu_version = None, yuzu_firmware = None,
                       branch = Some ''eden''\<rparr>\<rparr>))) = Some ''eden''"
    using version_branch_fields [where e = example_env and w = "example_world\<lparr>files := {}\<rparr>"
        and r = None, THEN conjunct2, THEN conjunct1] example_detect_missing
    by (simp add: example_world_def)
  have u: "yuzu w4 = \<lparr>yuzu_path = ''D:/New/Eden'', yuzu_version = None,
                       yuzu_firmware = None, branch = None\<rparr>"
    using version_branch_fields [where e = example_env and w = example_world
        and new_yuzu_path = "''D:/New/Eden''", THEN conjunct2, THEN conjunct2, THEN conjunct2,
        rule_format, of w4] n
    by (simp add: example_paths example_world_def)
  have v: "yuzu w5 = yuzu example_world"
    using version_branch_fields [where e = example_env and w = example_world
        and new_yuzu_path = "''D:/Yuzu''", THEN conjunct2, THEN conjunct2, THEN conjunct2,
        rule_format, of w5] s
    by (simp add: example_paths example_world_def)
  from a b c m u v show ?thesis
    by (simp add: i d f n s example_detect_missing dump_config_def)
qed

text \<open>
  The claim as stated fails: with version 1.0.0 and branch eden recorded and no executable in
  the install directory, detection clears \<open>yuzu_version\<close>, leaves \<open>branch\<close> set and
  persists that configuration.
\<close>

theorem detect_clears_version_only_counterexample:
  "yuzu_version (yuzu example_world) = Some ''1.0.0''
   \<and> branch (yuzu example_world) = Some ''eden''
   \<and> detect_yuzu_version example_env (example_world\<lparr>files := {}\<rparr>)
       = Inr (None, dump_config (example_world\<lparr>files := {},
                yuzu := \<lparr>yuzu_path = ''D:/Yuzu'', yuzu_version = None, yuzu_firmware = None,
                         branch = Some ''eden''\<rparr>\<rparr>))"
  by (simp add: detect_yuzu_version_def Let_def example_exe_path exists_def,
      simp add: example_world_def)

end
